theory Spec2Isabelle
  imports Complex_Main "HOL-Library.Sublist"
begin

section \<open>The two-tier analysis cache of the career-gap backend\<close>

text \<open>
  The development embeds the handler of \<^verbatim>\<open>POST /api/analyze\<close> (backend/index.js) and the
  error branches of \<^verbatim>\<open>analyzeGap\<close> (backend/services/ai.js).

  Conventions of the embedding:
  \<^item> A JavaScript string is a \<open>string\<close> whose characters are its UTF-16 code units; the
    type covers the texts whose code units are below 256, where \<open>length\<close> is
    \<^verbatim>\<open>.length\<close> and \<^verbatim>\<open>trim\<close>, \<^verbatim>\<open>toLowerCase\<close> act as defined below.
  \<^item> The SHA-256 hex digest of Node's crypto module and the coercion that the operator
    \<^verbatim>\<open><\<close> applies to a non-number operand are library code; they are parameters
    (\<open>H\<close> and \<open>L\<close>) of the handler.
  \<^item> Everything the handler reads from outside (clock, UUID generator, the model's
    answer, the behaviour of the database during this request) is collected in the
    record \<open>env\<close>; the handler is a function of the server state, the environment and
    the two body fields, and returns the response, the new state and the list of
    calls it made to its collaborators.
\<close>

subsection \<open>Request values\<close>

text \<open>A field of the parsed JSON body; \<open>JUndefined\<close> is a field that is missing.\<close>

datatype jsval =
    JUndefined
  | JNull
  | JBool bool
  | JNum real
  | JStr string
  | JArr "jsval list"
  | JObj "(string \<times> jsval) list"

text \<open>\<^verbatim>\<open>!v\<close> is \<open>\<not> truthy v\<close>.\<close>

fun truthy :: "jsval \<Rightarrow> bool" where
  "truthy JUndefined = False"
| "truthy JNull = False"
| "truthy (JBool b) = b"
| "truthy (JNum x) = (x \<noteq> 0)"
| "truthy (JStr s) = (s \<noteq> [])"
| "truthy (JArr xs) = True"
| "truthy (JObj ps) = True"

text \<open>
  The property read \<^verbatim>\<open>v.length\<close>: the number of code units of a string, the number of
  elements of an array, the own property of an object, \<^verbatim>\<open>undefined\<close> on a number or a
  boolean, a TypeError on \<^verbatim>\<open>undefined\<close> and \<^verbatim>\<open>null\<close>.
\<close>

fun length_of :: "jsval \<Rightarrow> string + jsval" where
  "length_of JUndefined = Inl ''Cannot read properties of undefined''"
| "length_of JNull = Inl ''Cannot read properties of null''"
| "length_of (JBool b) = Inr JUndefined"
| "length_of (JNum x) = Inr JUndefined"
| "length_of (JStr s) = Inr (JNum (of_nat (length s)))"
| "length_of (JArr xs) = Inr (JNum (of_nat (length xs)))"
| "length_of (JObj ps) = Inr (case map_of ps ''length'' of None \<Rightarrow> JUndefined | Some v \<Rightarrow> v)"

text \<open>
  \<^verbatim>\<open>w < 50\<close>: \<^verbatim>\<open>undefined\<close> becomes NaN (false), \<^verbatim>\<open>null\<close> becomes 0, a boolean 0 or 1;
  a string, an array or an object goes through the library coercion \<open>L\<close>, whose
  \<open>None\<close> is the TypeError of an object that has no primitive value.
\<close>

fun less_than_50 :: "(jsval \<Rightarrow> bool option) \<Rightarrow> jsval \<Rightarrow> string + bool" where
  "less_than_50 L JUndefined = Inr False"
| "less_than_50 L JNull = Inr True"
| "less_than_50 L (JBool b) = Inr True"
| "less_than_50 L (JNum x) = Inr (x < 50)"
| "less_than_50 L w =
     (case L w of None \<Rightarrow> Inl ''Cannot convert object to primitive value'' | Some b \<Rightarrow> Inr b)"

definition length_less_than_50 :: "(jsval \<Rightarrow> bool option) \<Rightarrow> jsval \<Rightarrow> string + bool" where
  "length_less_than_50 L v =
     (case length_of v of Inl m \<Rightarrow> Inl m | Inr w \<Rightarrow> less_than_50 L w)"

subsection \<open>Normalisation of the texts\<close>

text \<open>The white space and line terminators of ECMAScript among the code units below 256.\<close>

definition isWhiteSpace :: "char \<Rightarrow> bool" where
  "isWhiteSpace c = (of_char c \<in> {9, 10, 11, 12, 13, 32, 160 :: nat})"

definition trim :: "string \<Rightarrow> string" where
  "trim s = rev (dropWhile isWhiteSpace (rev (dropWhile isWhiteSpace s)))"

definition toLowerCase_char :: "char \<Rightarrow> char" where
  "toLowerCase_char c =
     (let n = of_char c :: nat
      in if (65 \<le> n \<and> n \<le> 90) \<or> (192 \<le> n \<and> n \<le> 214) \<or> (216 \<le> n \<and> n \<le> 222)
         then char_of (n + 32) else c)"

definition toLowerCase :: "string \<Rightarrow> string" where
  "toLowerCase s = map toLowerCase_char s"

text \<open>\<^verbatim>\<open>text.trim().toLowerCase()\<close>\<close>

definition normalize :: "string \<Rightarrow> string" where
  "normalize s = toLowerCase (trim s)"

text \<open>\<^verbatim>\<open>`${resumeHash}:${jobDescHash}`\<close>\<close>

definition cacheKey :: "string \<Rightarrow> string \<Rightarrow> string" where
  "cacheKey resumeHash jobDescHash = resumeHash @ '':'' @ jobDescHash"

text \<open>The two digests and the key of the memory cache that the handler derives from two texts.\<close>

definition resumeHash :: "(string \<Rightarrow> string) \<Rightarrow> string \<Rightarrow> string" where
  "resumeHash H resumeText = H (normalize resumeText)"

definition jobDescHash :: "(string \<Rightarrow> string) \<Rightarrow> string \<Rightarrow> string" where
  "jobDescHash H jobDescText = H (normalize jobDescText)"

definition deriveKey :: "(string \<Rightarrow> string) \<Rightarrow> string \<Rightarrow> string \<Rightarrow> string" where
  "deriveKey H resumeText jobDescText = cacheKey (resumeHash H resumeText) (jobDescHash H jobDescText)"

subsection \<open>Payloads, tiers and the environment\<close>

record learning_step =
  title :: string
  description :: string

text \<open>What \<^verbatim>\<open>analyzeGap\<close> returns.\<close>

record ai_result =
  missingSkills :: "string list"
  learningSteps :: "learning_step list"
  interviewQuestions :: "string list"

text \<open>A row of the table \<^verbatim>\<open>analysis\<close>; the handler's local \<^verbatim>\<open>responseData\<close> has the same fields.\<close>

record analysis = ai_result +
  id' :: string
  createdAt :: string
  resumeHash_of :: string
  jobDescHash_of :: string

text \<open>A cached or returned object: a row with or without the field \<^verbatim>\<open>cached\<close>.\<close>

record responseData = analysis +
  cached :: "bool option"

text \<open>\<^verbatim>\<open>{ ...row, cached: c }\<close>, and the row stored as it is.\<close>

definition spread :: "'a analysis_scheme \<Rightarrow> bool option \<Rightarrow> responseData" where
  "spread row c =
     \<lparr> missingSkills = missingSkills row, learningSteps = learningSteps row,
       interviewQuestions = interviewQuestions row, id' = id' row, createdAt = createdAt row,
       resumeHash_of = resumeHash_of row, jobDescHash_of = jobDescHash_of row, cached = c \<rparr>"

record mem_entry =
  data :: responseData
  timestamp :: int

definition CACHE_TTL :: int where
  "CACHE_TTL = 1000 * 60 * 60 * 24"

text \<open>
  Modelled from the spec: the durable store. The Prisma schema of the model
  \<^verbatim>\<open>analysis\<close> is not part of the sources; the handler's
  \<^verbatim>\<open>findUnique({where: {resumeHash_jobDescHash: ...}})\<close> and the spec's "compound uniqueness
  constraint over (resumeDigest, jobDescDigest)" give a table with at most one row for
  each pair of digests, a point lookup, and an insert that generates \<^verbatim>\<open>id\<close> and
  \<^verbatim>\<open>createdAt\<close> and fails on an existing pair; every operation can fail because the
  store is unreachable.
\<close>

type_synonym analysis_table = "string \<times> string \<rightharpoonup> analysis"

record server_state =
  memoryCache :: "string \<rightharpoonup> mem_entry"
  table :: analysis_table

datatype find_outcome = FindRuns | FindThrows string

datatype create_outcome = CreateRuns string string | CreateThrows string

text \<open>
  The outcome of the body of \<^verbatim>\<open>analyzeGap\<close>'s try block before the schema's length
  checks: an error other than a ZodError with its message (the request to the
  model, \<^verbatim>\<open>JSON.parse\<close>), a parsed value that has not the schema's types, or a
  parsed value of the schema's types.
\<close>

datatype generate_outcome = GenerateThrows string | ParsedWrongType | Parsed ai_result

record env =
  now_probe :: int                \<comment> \<open>\<^verbatim>\<open>Date.now()\<close> of the memory probe\<close>
  db_find :: find_outcome         \<comment> \<open>whether \<^verbatim>\<open>findUnique\<close> reaches the store\<close>
  now_writeback :: int            \<comment> \<open>\<^verbatim>\<open>Date.now()\<close> of the write-back after a database hit\<close>
  ai :: generate_outcome          \<comment> \<open>what the model call and the parsing give\<close>
  other_writer :: "analysis option"
    \<comment> \<open>a row that a concurrent request inserts while this one awaits \<^verbatim>\<open>analyzeGap\<close>\<close>
  uuid :: string                  \<comment> \<open>\<^verbatim>\<open>crypto.randomUUID()\<close>\<close>
  now_iso :: string               \<comment> \<open>\<^verbatim>\<open>new Date().toISOString()\<close>\<close>
  db_create :: create_outcome
    \<comment> \<open>whether \<^verbatim>\<open>create\<close> reaches the store, and the \<^verbatim>\<open>id\<close> and \<^verbatim>\<open>createdAt\<close> it would generate\<close>
  now_store :: int                \<comment> \<open>\<^verbatim>\<open>Date.now()\<close> of the final \<^verbatim>\<open>memoryCache.set\<close>\<close>

datatype event = Sha256 | MemoryGet | DbFindUnique | AnalyzeGap | DbCreate | MemorySet

datatype http_response =
    Success responseData
  | Failure nat string string   \<comment> \<open>status, \<^verbatim>\<open>error\<close>, \<^verbatim>\<open>code\<close>\<close>

subsection \<open>The collaborators\<close>

definition AnalysisSchema :: "ai_result \<Rightarrow> bool" where
  "AnalysisSchema v \<longleftrightarrow>
     1 \<le> length (missingSkills v) \<and> length (missingSkills v) \<le> 10 \<and>
     length (learningSteps v) = 3 \<and> length (interviewQuestions v) = 3"

text \<open>\<^verbatim>\<open>analyzeGap\<close>: \<open>Inl\<close> is the message of the error it throws.\<close>

definition analyzeGap :: "generate_outcome \<Rightarrow> string + ai_result" where
  "analyzeGap out =
     (case out of
        GenerateThrows m \<Rightarrow> Inl (''AI Service Failed: '' @ m)
      | ParsedWrongType \<Rightarrow> Inl ''AI returned malformed data. Please try again.''
      | Parsed v \<Rightarrow>
          if AnalysisSchema v then Inr v
          else Inl ''AI returned malformed data. Please try again.'')"

text \<open>
  Modelled from the spec: the point lookup of the durable store (the Prisma model is not
  part of the sources). It fails when the store is unreachable, and otherwise returns
  the row of the pair of digests, if there is one.
\<close>

definition findUnique :: "find_outcome \<Rightarrow> analysis_table \<Rightarrow> string \<Rightarrow> string \<Rightarrow> string + analysis option" where
  "findUnique out t rh jh = (case out of FindThrows m \<Rightarrow> Inl m | FindRuns \<Rightarrow> Inr (t (rh, jh)))"

text \<open>
  Modelled from the spec: the insert of the durable store (the Prisma model is not part of
  the sources). It fails when the store is unreachable, fails on the uniqueness
  constraint when the pair of digests has a row, and otherwise stores and returns a row
  with a generated \<^verbatim>\<open>id\<close> and \<^verbatim>\<open>createdAt\<close>.
\<close>

definition create :: "create_outcome \<Rightarrow> analysis_table \<Rightarrow> string \<Rightarrow> string \<Rightarrow> ai_result
    \<Rightarrow> string + analysis \<times> analysis_table" where
  "create out t rh jh a =
     (case out of
        CreateThrows m \<Rightarrow> Inl m
      | CreateRuns new_id new_createdAt \<Rightarrow>
          if (rh, jh) \<in> dom t then Inl ''Unique constraint failed on the fields: (resumeHash,jobDescHash)''
          else
            let row = \<lparr> missingSkills = missingSkills a, learningSteps = learningSteps a,
                        interviewQuestions = interviewQuestions a, id' = new_id,
                        createdAt = new_createdAt, resumeHash_of = rh, jobDescHash_of = jh \<rparr>
            in Inr (row, t((rh, jh) \<mapsto> row)))"

text \<open>
  Modelled from the spec: the insert of a concurrent request into the durable store, under
  the same uniqueness constraint.
\<close>

definition concurrent_insert :: "analysis option \<Rightarrow> analysis_table \<Rightarrow> analysis_table" where
  "concurrent_insert w t =
     (case w of
        None \<Rightarrow> t
      | Some row \<Rightarrow>
          if (resumeHash_of row, jobDescHash_of row) \<in> dom t then t
          else t((resumeHash_of row, jobDescHash_of row) \<mapsto> row))"

text \<open>\<^verbatim>\<open>message.includes(sub)\<close>\<close>

fun includes_sub :: "string \<Rightarrow> string \<Rightarrow> bool" where
  "includes_sub [] sub = (sub = [])"
| "includes_sub (c # cs) sub = (prefix sub (c # cs) \<or> includes_sub cs sub)"

subsection \<open>The handler of POST /api/analyze\<close>

text \<open>The catch block of the handler: the response for an error with the given message.\<close>

definition error_response :: "string \<Rightarrow> http_response" where
  "error_response message =
     (if includes_sub message ''malformed''
      then Failure 422 ''AI returned invalid data. Please try again.'' ''AI_VALIDATION_ERROR''
      else if includes_sub message ''AI Service Failed''
      then Failure 503 ''AI service is temporarily unavailable. Please try again later.''
             ''AI_SERVICE_ERROR''
      else Failure 500 ''Something went wrong processing your request.'' ''INTERNAL_ERROR'')"

text \<open>A step of the try block answers the request, throws, or goes on with a value.\<close>

datatype 'a step = Respond http_response | Throw string | Next 'a

text \<open>Input validation (the two \<^verbatim>\<open>if\<close>s); \<^verbatim>\<open>||\<close> evaluates its right operand only when the left one is false.\<close>

definition validate :: "(jsval \<Rightarrow> bool option) \<Rightarrow> jsval \<Rightarrow> jsval \<Rightarrow> unit step" where
  "validate L resumeText jobDescText =
     (if \<not> truthy resumeText \<or> \<not> truthy jobDescText
      then Respond (Failure 400 ''Resume and Job Description are required'' ''VALIDATION_ERROR'')
      else
        case length_less_than_50 L resumeText of
          Inl m \<Rightarrow> Throw m
        | Inr True \<Rightarrow>
            Respond (Failure 400
              ''Please provide more detailed Resume and Job Description (min 50 characters each)''
              ''VALIDATION_ERROR'')
        | Inr False \<Rightarrow>
            (case length_less_than_50 L jobDescText of
               Inl m \<Rightarrow> Throw m
             | Inr True \<Rightarrow>
                 Respond (Failure 400
                   ''Please provide more detailed Resume and Job Description (min 50 characters each)''
                   ''VALIDATION_ERROR'')
             | Inr False \<Rightarrow> Next ()))"

text \<open>
  Hashing: \<^verbatim>\<open>text.trim()\<close> is a TypeError on a value that is not a string (no value of
  a JSON body has a callable \<^verbatim>\<open>trim\<close>). The result carries the digests and the calls made.
\<close>

definition hashing :: "(string \<Rightarrow> string) \<Rightarrow> jsval \<Rightarrow> jsval \<Rightarrow> (string \<times> string) step \<times> event list" where
  "hashing H resumeText jobDescText =
     (case resumeText of
        JStr r \<Rightarrow>
          (case jobDescText of
             JStr j \<Rightarrow> (Next (resumeHash H r, jobDescHash H j), [Sha256, Sha256])
           | _ \<Rightarrow> (Throw ''jobDescText.trim is not a function'', [Sha256]))
      | _ \<Rightarrow> (Throw ''resumeText.trim is not a function'', []))"

text \<open>The memory probe: the entry's data if it is there and younger than \<open>CACHE_TTL\<close>.\<close>

definition memory_hit :: "(string \<rightharpoonup> mem_entry) \<Rightarrow> string \<Rightarrow> int \<Rightarrow> responseData option" where
  "memory_hit mc key now =
     (case mc key of
        None \<Rightarrow> None
      | Some memCached \<Rightarrow> if now - timestamp memCached < CACHE_TTL then Some (data memCached) else None)"

definition memory_set :: "server_state \<Rightarrow> string \<Rightarrow> responseData \<Rightarrow> int \<Rightarrow> server_state" where
  "memory_set s key d now = s\<lparr>memoryCache := (memoryCache s)(key \<mapsto> \<lparr>data = d, timestamp = now\<rparr>)\<rparr>"

text \<open>
  Steps 3 and 4 of the handler: the call of \<^verbatim>\<open>analyzeGap\<close>, the insert unless the lookup
  failed, the write of the memory cache. An error of the insert is caught and logged.
\<close>

definition compute_and_store ::
  "server_state \<Rightarrow> env \<Rightarrow> bool \<Rightarrow> string \<Rightarrow> string \<Rightarrow> (string + http_response) \<times> server_state \<times> event list" where
  "compute_and_store s e dbAvailable rh jh =
     (let s1 = s\<lparr>table := concurrent_insert (other_writer e) (table s)\<rparr>
      in case analyzeGap (ai e) of
           Inl m \<Rightarrow> (Inl m, s1, [AnalyzeGap])
         | Inr aiResult \<Rightarrow>
             let responseData =
                   \<lparr> missingSkills = missingSkills aiResult, learningSteps = learningSteps aiResult,
                     interviewQuestions = interviewQuestions aiResult, id' = uuid e,
                     createdAt = now_iso e, resumeHash_of = rh, jobDescHash_of = jh,
                     cached = Some False \<rparr>
             in if dbAvailable
                then
                  (case create (db_create e) (table s1) rh jh aiResult of
                     Inr (newAnalysis, t') \<Rightarrow>
                       (Inr (Success (spread newAnalysis (Some False))),
                        memory_set (s1\<lparr>table := t'\<rparr>) (cacheKey rh jh)
                          (spread newAnalysis (Some False)) (now_store e),
                        [AnalyzeGap, DbCreate, MemorySet])
                   | Inl saveError \<Rightarrow>
                       (Inr (Success responseData),
                        memory_set s1 (cacheKey rh jh) responseData (now_store e),
                        [AnalyzeGap, DbCreate, MemorySet]))
                else
                  (Inr (Success responseData),
                   memory_set s1 (cacheKey rh jh) responseData (now_store e),
                   [AnalyzeGap, MemorySet]))"

text \<open>Steps 2a and 2b: the memory probe, then the database lookup with its fallback.\<close>

definition lookup ::
  "server_state \<Rightarrow> env \<Rightarrow> string \<Rightarrow> string \<Rightarrow> (string + http_response) \<times> server_state \<times> event list" where
  "lookup s e rh jh =
     (case memory_hit (memoryCache s) (cacheKey rh jh) (now_probe e) of
        Some d \<Rightarrow> (Inr (Success (spread d (Some True))), s, [MemoryGet])
      | None \<Rightarrow>
          (case findUnique (db_find e) (table s) rh jh of
             Inr (Some existingAnalysis) \<Rightarrow>
               (Inr (Success (spread existingAnalysis (Some True))),
                memory_set s (cacheKey rh jh) (spread existingAnalysis None) (now_writeback e),
                [MemoryGet, DbFindUnique, MemorySet])
           | Inr None \<Rightarrow>
               (case compute_and_store s e True rh jh of
                  (r, s', tr) \<Rightarrow> (r, s', [MemoryGet, DbFindUnique] @ tr))
           | Inl dbError \<Rightarrow>
               (case compute_and_store s e False rh jh of
                  (r, s', tr) \<Rightarrow> (r, s', [MemoryGet, DbFindUnique] @ tr))))"

text \<open>The try block.\<close>

definition analyze_try ::
  "(string \<Rightarrow> string) \<Rightarrow> (jsval \<Rightarrow> bool option) \<Rightarrow> server_state \<Rightarrow> env \<Rightarrow> jsval \<Rightarrow> jsval
    \<Rightarrow> (string + http_response) \<times> server_state \<times> event list" where
  "analyze_try H L s e resumeText jobDescText =
     (case validate L resumeText jobDescText of
        Respond r \<Rightarrow> (Inr r, s, [])
      | Throw m \<Rightarrow> (Inl m, s, [])
      | Next _ \<Rightarrow>
          (case hashing H resumeText jobDescText of
             (Respond r, tr) \<Rightarrow> (Inr r, s, tr)
           | (Throw m, tr) \<Rightarrow> (Inl m, s, tr)
           | (Next (rh, jh), tr) \<Rightarrow>
               (case lookup s e rh jh of (r, s', tr') \<Rightarrow> (r, s', tr @ tr'))))"

text \<open>The handler: the try block, and the catch block on an error.\<close>

definition analyze ::
  "(string \<Rightarrow> string) \<Rightarrow> (jsval \<Rightarrow> bool option) \<Rightarrow> server_state \<Rightarrow> env \<Rightarrow> jsval \<Rightarrow> jsval
    \<Rightarrow> http_response \<times> server_state \<times> event list" where
  "analyze H L s e resumeText jobDescText =
     (case analyze_try H L s e resumeText jobDescText of
        (Inl message, s', tr) \<Rightarrow> (error_response message, s', tr)
      | (Inr r, s', tr) \<Rightarrow> (r, s', tr))"

subsection \<open>The words of the claims\<close>

text \<open>
  The white space of \<open>isWhiteSpace\<close> and the ASCII punctuation marks; two texts differ
  only in white space or punctuation when they are different and agree once such
  characters are removed.
\<close>

definition whitespace_or_punctuation :: "char \<Rightarrow> bool" where
  "whitespace_or_punctuation c =
     (let n = of_char c :: nat
      in isWhiteSpace c \<or> (33 \<le> n \<and> n \<le> 47) \<or> (58 \<le> n \<and> n \<le> 64) \<or>
         (91 \<le> n \<and> n \<le> 96) \<or> (123 \<le> n \<and> n \<le> 126))"

definition differ_only_in_whitespace_or_punctuation :: "string \<Rightarrow> string \<Rightarrow> bool" where
  "differ_only_in_whitespace_or_punctuation x y \<longleftrightarrow>
     x \<noteq> y \<and>
     filter (\<lambda>c. \<not> whitespace_or_punctuation c) x = filter (\<lambda>c. \<not> whitespace_or_punctuation c) y"

text \<open>
  The content of an analysis result (the fields the caller reads besides \<^verbatim>\<open>cached\<close>), and
  the invariant that the two tiers hold at most one content for a key.
\<close>

definition content :: "'a analysis_scheme \<Rightarrow> string list \<times> learning_step list \<times> string list \<times> string \<times> string" where
  "content x = (missingSkills x, learningSteps x, interviewQuestions x, id' x, createdAt x)"

definition one_content_across_tiers :: "server_state \<Rightarrow> string \<Rightarrow> string \<Rightarrow> bool" where
  "one_content_across_tiers s rh jh =
     (case (memoryCache s (cacheKey rh jh), table s (rh, jh)) of
        (Some m, Some row) \<Rightarrow> content (data m) = content row
      | _ \<Rightarrow> True)"

text \<open>
  A request value that is truthy, is not a string, and has no \<^verbatim>\<open>length\<close> that is a number
  below 50.
\<close>

definition is_text :: "jsval \<Rightarrow> bool" where
  "is_text v = (case v of JStr t \<Rightarrow> True | _ \<Rightarrow> False)"

definition numeric_length_below_50 :: "jsval \<Rightarrow> bool" where
  "numeric_length_below_50 v = (case length_of v of Inr (JNum n) \<Rightarrow> n < 50 | _ \<Rightarrow> False)"

definition truthy_non_text_without_short_length :: "jsval \<Rightarrow> bool" where
  "truthy_non_text_without_short_length v \<longleftrightarrow> truthy v \<and> \<not> is_text v \<and> \<not> numeric_length_below_50 v"

subsection \<open>Concrete values for the examples\<close>

text \<open>
  The texts of the spec's scenario (60 times the letter a, 60 times the letter b), a digest
  function that agrees with SHA-256 on the four normalised texts the examples hash, and a
  coercion that the examples never consult (the lengths they compare are numbers or
  \<^verbatim>\<open>undefined\<close>).
\<close>


definition demo_resume :: string where
  "demo_resume = replicate 60 CHR ''a''"

definition demo_jobDesc :: string where
  "demo_jobDesc = replicate 60 CHR ''b''"

definition demo_sha256 :: "string \<Rightarrow> string" where
  "demo_sha256 t =
     (if t = replicate 60 CHR ''a''
      then ''11ee391211c6256460b6ed375957fadd8061cafbb31daf967db875aebd5aaad4''
      else if t = replicate 60 CHR ''b''
      then ''bbeb514bf12fdef276e7fde1f3cadc8fd1ec8ec070d893bd98f5d1b383de66cf''
      else if t = ''hello, world''
      then ''09ca7e4eaa6e8ae9c7d261167129184883644d07dfba7cbfbc4c8a2e08360d5b''
      else if t = ''hello world''
      then ''b94d27b9934d3e08a52e52d7da7dabfac484efe37a5380ee9088f7ace2efcde9''
      else replicate 64 CHR ''0'')"

definition demo_coercion :: "jsval \<Rightarrow> bool option" where
  "demo_coercion w = None"

definition demo_result :: ai_result where
  "demo_result =
     \<lparr> missingSkills = [''Docker''],
       learningSteps = [\<lparr>title = ''Containers'', description = ''Package the portfolio site''\<rparr>,
                        \<lparr>title = ''Compose'', description = ''Run it with a database''\<rparr>,
                        \<lparr>title = ''Deploy'', description = ''Ship the image''\<rparr>],
       interviewQuestions = [''What is an image?'', ''What is a volume?'', ''What is a layer?''] \<rparr>"

definition empty_state :: server_state where
  "empty_state = \<lparr> memoryCache = Map.empty, table = Map.empty \<rparr>"

definition demo_env :: env where
  "demo_env =
     \<lparr> now_probe = 1000, db_find = FindRuns, now_writeback = 1001, ai = Parsed demo_result,
       other_writer = None, uuid = ''5b2c'', now_iso = ''2026-01-01T00:00:00.000Z'',
       db_create = CreateRuns ''row-1'' ''2026-01-01T00:00:00.001Z'', now_store = 1002 \<rparr>"

definition stale_state :: server_state where
  "stale_state =
     \<lparr> memoryCache =
         [deriveKey demo_sha256 demo_resume demo_jobDesc \<mapsto>
            \<lparr> data = \<lparr> missingSkills = [''Docker''], learningSteps = [], interviewQuestions = [],
                        id' = ''old'', createdAt = ''2025-12-31T00:00:00.000Z'',
                        resumeHash_of = resumeHash demo_sha256 demo_resume,
                        jobDescHash_of = jobDescHash demo_sha256 demo_jobDesc, cached = Some False \<rparr>,
              timestamp = 1000 - 86400000 \<rparr>],
       table = Map.empty \<rparr>"

text \<open>
  A row that a concurrent request has inserted for the key of the example texts, an
  environment in which that insert happens while the request awaits \<^verbatim>\<open>analyzeGap\<close>, an
  environment in which the lookup cannot reach the store, and the state that a request
  in the latter leaves behind.
\<close>

definition other_row :: analysis where
  "other_row =
     \<lparr> missingSkills = [''Kubernetes''],
       learningSteps = [\<lparr>title = ''Pods'', description = ''Deploy a pod''\<rparr>,
                        \<lparr>title = ''Services'', description = ''Expose it''\<rparr>,
                        \<lparr>title = ''Helm'', description = ''Template it''\<rparr>],
       interviewQuestions = [''What is a pod?'', ''What is a service?'', ''What is a chart?''],
       id' = ''row-0'', createdAt = ''2026-01-01T00:00:00.000Z'',
       resumeHash_of = ''11ee391211c6256460b6ed375957fadd8061cafbb31daf967db875aebd5aaad4'',
       jobDescHash_of = ''bbeb514bf12fdef276e7fde1f3cadc8fd1ec8ec070d893bd98f5d1b383de66cf'' \<rparr>"

definition race_env :: env where
  "race_env = demo_env\<lparr>other_writer := Some other_row\<rparr>"

definition down_env :: env where
  "down_env = demo_env\<lparr>db_find := FindThrows ''database server unreachable''\<rparr>"

definition state_after_degraded_call :: server_state where
  "state_after_degraded_call = fst (snd (analyze demo_sha256 demo_coercion empty_state down_env (JStr demo_resume) (JStr demo_jobDesc)))"

section \<open>Properties\<close>

subsection \<open>Auxiliary facts about the steps\<close>

lemma validate_valid:
  "50 \<le> length r \<Longrightarrow> 50 \<le> length j \<Longrightarrow> validate L (JStr r) (JStr j) = Next ()"
  by (auto simp: validate_def length_less_than_50_def)

lemma hashing_text:
  "hashing H (JStr r) (JStr j) = (Next (resumeHash H r, jobDescHash H j), [Sha256, Sha256])"
  by (simp add: hashing_def)

lemma analyze_valid:
  assumes "50 \<le> length r" "50 \<le> length j"
  shows "analyze H L s e (JStr r) (JStr j) =
     (case lookup s e (resumeHash H r) (jobDescHash H j) of
        (Inl m, s', tr) \<Rightarrow> (error_response m, s', [Sha256, Sha256] @ tr)
      | (Inr x, s', tr) \<Rightarrow> (x, s', [Sha256, Sha256] @ tr))"
  using assms
  by (simp add: analyze_def analyze_try_def validate_valid hashing_text split: prod.splits sum.splits)

lemma spread_responseData: "spread (d :: responseData) c = d\<lparr>cached := c\<rparr>"
  by (cases d) (simp add: spread_def)

lemma compute_fail:
  "analyzeGap (ai e) = Inl m \<Longrightarrow>
   compute_and_store s e b rh jh =
     (Inl m, s\<lparr>table := concurrent_insert (other_writer e) (table s)\<rparr>, [AnalyzeGap])"
  by (simp add: compute_and_store_def)

lemma compute_ok_degraded:
  "analyzeGap (ai e) = Inr v \<Longrightarrow>
   compute_and_store s e False rh jh =
     (let d = \<lparr> missingSkills = missingSkills v, learningSteps = learningSteps v,
                interviewQuestions = interviewQuestions v, id' = uuid e,
                createdAt = now_iso e, resumeHash_of = rh, jobDescHash_of = jh,
                cached = Some False \<rparr>
      in (Inr (Success d),
          memory_set (s\<lparr>table := concurrent_insert (other_writer e) (table s)\<rparr>) (cacheKey rh jh) d (now_store e),
          [AnalyzeGap, MemorySet]))"
  by (simp add: compute_and_store_def Let_def)

lemma compute_ok:
  assumes "analyzeGap (ai e) = Inr v"
  shows "\<exists>d s' tr. compute_and_store s e b rh jh = (Inr (Success d), s', tr) \<and>
           cached d = Some False \<and>
           memoryCache s' = (memoryCache s)(cacheKey rh jh \<mapsto> \<lparr>data = d, timestamp = now_store e\<rparr>) \<and>
           AnalyzeGap \<in> set tr \<and> MemorySet \<in> set tr"
  using assms
  by (auto simp: compute_and_store_def Let_def memory_set_def spread_def split: sum.splits prod.splits)

lemma lookup_memory_hit:
  "memory_hit (memoryCache s) (cacheKey rh jh) (now_probe e) = Some d \<Longrightarrow>
   lookup s e rh jh = (Inr (Success (d\<lparr>cached := Some True\<rparr>)), s, [MemoryGet])"
  by (simp add: lookup_def spread_responseData)

lemma lookup_miss:
  assumes "memory_hit (memoryCache s) (cacheKey rh jh) (now_probe e) = None"
    and "table s (rh, jh) = None \<or> (\<exists>m. db_find e = FindThrows m)"
  shows "lookup s e rh jh =
     (case compute_and_store s e (db_find e = FindRuns) rh jh of
        (r, s', tr) \<Rightarrow> (r, s', [MemoryGet, DbFindUnique] @ tr))"
  using assms
  by (cases "db_find e") (auto simp: lookup_def findUnique_def split: prod.splits)


lemma memory_hit_iff:
  "memory_hit mc key now = Some d \<longleftrightarrow>
     (\<exists>m. mc key = Some m \<and> d = data m \<and> now - timestamp m < 86400000)"
  by (auto simp: memory_hit_def CACHE_TTL_def split: option.splits)

lemma memory_hit_expired:
  "mc key = Some m \<Longrightarrow> CACHE_TTL \<le> now - timestamp m \<Longrightarrow> memory_hit mc key now = None"
  by (simp add: memory_hit_def)

lemma validate_short_resume:
  "length r < 50 \<Longrightarrow> \<exists>msg. validate L (JStr r) j = Respond (Failure 400 msg ''VALIDATION_ERROR'')"
  by (simp add: validate_def length_less_than_50_def)

lemma validate_short_jobDesc:
  "length j < 50 \<Longrightarrow> \<exists>msg. validate L (JStr r) (JStr j) = Respond (Failure 400 msg ''VALIDATION_ERROR'')"
  by (cases "length r < 50") (simp_all add: validate_def length_less_than_50_def)

lemma validate_missing:
  "resumeText = JUndefined \<or> jobDescText = JUndefined \<Longrightarrow>
   \<exists>msg. validate L resumeText jobDescText = Respond (Failure 400 msg ''VALIDATION_ERROR'')"
  by (auto simp: validate_def)

lemma analyze_rejected:
  "validate L resumeText jobDescText = Respond x \<Longrightarrow> analyze H L s e resumeText jobDescText = (x, s, [])"
  by (simp add: analyze_def analyze_try_def)

subsection \<open>Validation comes before any work\<close>

text \<open>
  Claim C4. A request in which \<^verbatim>\<open>resumeText\<close> or \<^verbatim>\<open>jobDescText\<close> is missing, or in which
  one of the two texts has fewer than 50 characters, is answered with status 400 and the
  code \<^verbatim>\<open>VALIDATION_ERROR\<close>; the handler has then made no call at all (no digest, no
  probe of a tier, no call of \<^verbatim>\<open>analyzeGap\<close>) and the state of both tiers is the one
  it started from.
\<close>

theorem validation_rejects_before_hashing:
  assumes "resumeText = JUndefined \<or> jobDescText = JUndefined
           \<or> (\<exists>r. resumeText = JStr r \<and> length r < 50)
           \<or> (\<exists>r j. resumeText = JStr r \<and> jobDescText = JStr j \<and> length j < 50)"
  shows "\<exists>msg. analyze H L s e resumeText jobDescText = (Failure 400 msg ''VALIDATION_ERROR'', s, [])"
proof -
  have "\<exists>msg. validate L resumeText jobDescText = Respond (Failure 400 msg ''VALIDATION_ERROR'')"
    using assms validate_missing [of resumeText jobDescText L]
      validate_short_resume [of _ L jobDescText] validate_short_jobDesc [of _ L]
    by blast
  then show ?thesis
    by (auto simp: analyze_rejected)
qed

subsection \<open>Expiry of the memory tier\<close>

text \<open>
  Claim C7. The memory probe returns the data of an entry exactly when the entry is
  there and the time of the probe minus the entry's timestamp is strictly below 24 hours
  (in milliseconds). A request with valid texts that finds its entry expired and no row
  for its key in the table calls \<^verbatim>\<open>analyzeGap\<close> again, whether or not the lookup in the
  table reaches the store.
\<close>

theorem memory_tier_ttl:
  "(memory_hit mc key now = Some d \<longleftrightarrow>
      (\<exists>m. mc key = Some m \<and> d = data m \<and> now - timestamp m < 24 * 60 * 60 * 1000))
   \<and> (50 \<le> length r \<longrightarrow> 50 \<le> length j \<longrightarrow>
        memoryCache s (deriveKey H r j) = Some m0 \<longrightarrow>
        24 * 60 * 60 * 1000 \<le> now_probe e - timestamp m0 \<longrightarrow>
        table s (resumeHash H r, jobDescHash H j) = None \<longrightarrow>
        AnalyzeGap \<in> set (snd (snd (analyze H L s e (JStr r) (JStr j)))))"
proof (intro conjI impI)
  show "memory_hit mc key now = Some d \<longleftrightarrow>
      (\<exists>m. mc key = Some m \<and> d = data m \<and> now - timestamp m < 24 * 60 * 60 * 1000)"
    by (simp add: memory_hit_iff)
next
  assume v: "50 \<le> length r" "50 \<le> length j"
    and m: "memoryCache s (deriveKey H r j) = Some m0"
    and old: "24 * 60 * 60 * 1000 \<le> now_probe e - timestamp m0"
    and empty: "table s (resumeHash H r, jobDescHash H j) = None"
  have miss: "memory_hit (memoryCache s) (cacheKey (resumeHash H r) (jobDescHash H j)) (now_probe e) = None"
    using m old by (simp add: memory_hit_def deriveKey_def CACHE_TTL_def)
  obtain x s' tr where c: "compute_and_store s e (db_find e = FindRuns) (resumeHash H r) (jobDescHash H j) = (x, s', tr)"
    by (cases "compute_and_store s e (db_find e = FindRuns) (resumeHash H r) (jobDescHash H j)")
  have "AnalyzeGap \<in> set tr"
    using c by (auto simp: compute_and_store_def Let_def split: sum.splits prod.splits if_splits)
  then show "AnalyzeGap \<in> set (snd (snd (analyze H L s e (JStr r) (JStr j))))"
    using v c by (simp add: analyze_valid lookup_miss [OF miss] empty split: sum.splits)
qed


lemma demo_lengths: "length demo_resume = 60" "length demo_jobDesc = 60"
  by (simp_all add: demo_resume_def demo_jobDesc_def)

theorem validation_rejects_before_hashing_witness:
  "length (replicate 40 CHR ''a'') < 50 \<and>
   (\<exists>msg. analyze demo_sha256 demo_coercion empty_state demo_env
             (JStr (replicate 40 CHR ''a'')) (JStr demo_jobDesc) =
           (Failure 400 msg ''VALIDATION_ERROR'', empty_state, []))"
proof -
  have h: "length (replicate 40 CHR ''a'') < 50" by simp
  then have "JStr (replicate 40 CHR ''a'') = JUndefined \<or> JStr demo_jobDesc = JUndefined
           \<or> (\<exists>r. JStr (replicate 40 CHR ''a'') = JStr r \<and> length r < 50)
           \<or> (\<exists>r j. JStr (replicate 40 CHR ''a'') = JStr r \<and> JStr demo_jobDesc = JStr j \<and> length j < 50)"
    by simp
  from validation_rejects_before_hashing [OF this] h show ?thesis by blast
qed

theorem memory_tier_ttl_witness:
  "50 \<le> length demo_resume \<and> 50 \<le> length demo_jobDesc \<and>
   (\<exists>m0. memoryCache stale_state (deriveKey demo_sha256 demo_resume demo_jobDesc) = Some m0 \<and>
      24 * 60 * 60 * 1000 \<le> now_probe demo_env - timestamp m0) \<and>
   table stale_state (resumeHash demo_sha256 demo_resume, jobDescHash demo_sha256 demo_jobDesc) = None \<and>
   AnalyzeGap \<in> set (snd (snd (analyze demo_sha256 demo_coercion stale_state demo_env
                                   (JStr demo_resume) (JStr demo_jobDesc))))"
proof -
  let ?m = "the (memoryCache stale_state (deriveKey demo_sha256 demo_resume demo_jobDesc))"
  have m: "memoryCache stale_state (deriveKey demo_sha256 demo_resume demo_jobDesc) = Some ?m"
    by (simp add: stale_state_def)
  have old: "24 * 60 * 60 * 1000 \<le> now_probe demo_env - timestamp ?m"
    by (simp add: stale_state_def demo_env_def)
  have t: "table stale_state (resumeHash demo_sha256 demo_resume, jobDescHash demo_sha256 demo_jobDesc) = None"
    by (simp add: stale_state_def)
  have v: "50 \<le> length demo_resume" "50 \<le> length demo_jobDesc"
    by (simp_all add: demo_lengths)
  from memory_tier_ttl [of _ _ _ _ demo_resume demo_jobDesc stale_state demo_sha256 ?m demo_env demo_coercion]
    v m old t
  show ?thesis by blast
qed

lemma error_response_malformed:
  "error_response ''AI returned malformed data. Please try again.'' =
     Failure 422 ''AI returned invalid data. Please try again.'' ''AI_VALIDATION_ERROR''"
  by (simp add: error_response_def)

lemma includes_service_failed_malformed:
  "includes_sub (''AI Service Failed: '' @ m) ''malformed'' = includes_sub m ''malformed''"
  by simp

lemma includes_service_failed:
  "includes_sub (''AI Service Failed: '' @ m) ''AI Service Failed''"
  by simp

lemma error_response_service:
  "error_response (''AI Service Failed: '' @ m) =
     (if includes_sub m ''malformed''
      then Failure 422 ''AI returned invalid data. Please try again.'' ''AI_VALIDATION_ERROR''
      else Failure 503 ''AI service is temporarily unavailable. Please try again later.''
             ''AI_SERVICE_ERROR'')"
  unfolding error_response_def
  by (simp only: includes_service_failed_malformed includes_service_failed if_True)

lemma lookup_reaches_compute:
  assumes "lookup s e rh jh = (x, s', tr)" and "AnalyzeGap \<in> set tr"
  shows "\<exists>b tr1. compute_and_store s e b rh jh = (x, s', tr1) \<and> tr = [MemoryGet, DbFindUnique] @ tr1"
proof (cases "memory_hit (memoryCache s) (cacheKey rh jh) (now_probe e)")
  case (Some d)
  with assms show ?thesis by (auto simp: lookup_def)
next
  case None
  show ?thesis
  proof (cases "findUnique (db_find e) (table s) rh jh")
    case (Inl dbError)
    with None assms(1) show ?thesis
      by (auto simp: lookup_def split: prod.splits)
  next
    case (Inr found)
    show ?thesis
    proof (cases found)
      case None
      with Inr \<open>memory_hit (memoryCache s) (cacheKey rh jh) (now_probe e) = None\<close> assms(1)
      show ?thesis by (auto simp: lookup_def split: prod.splits)
    next
      case (Some row)
      with Inr \<open>memory_hit (memoryCache s) (cacheKey rh jh) (now_probe e) = None\<close> assms
      show ?thesis by (auto simp: lookup_def)
    qed
  qed
qed

lemma analyze_try_reaches_compute:
  assumes "analyze_try H L s e resumeText jobDescText = (x, s', tr)" and "AnalyzeGap \<in> set tr"
  shows "\<exists>r j tr1. resumeText = JStr r \<and> jobDescText = JStr j \<and>
           lookup s e (resumeHash H r) (jobDescHash H j) = (x, s', tr1) \<and> tr = [Sha256, Sha256] @ tr1"
proof (cases "validate L resumeText jobDescText")
  case (Respond r)
  with assms show ?thesis by (simp add: analyze_try_def)
next
  case (Throw m)
  with assms show ?thesis by (simp add: analyze_try_def)
next
  case (Next u)
  show ?thesis
  proof (cases resumeText)
    case (JStr r)
    show ?thesis
    proof (cases jobDescText)
      case (JStr j)
      with \<open>resumeText = JStr r\<close> Next assms(1) show ?thesis
        by (auto simp: analyze_try_def hashing_def split: prod.splits)
    qed (use \<open>resumeText = JStr r\<close> Next assms in \<open>auto simp: analyze_try_def hashing_def\<close>)
  qed (use Next assms in \<open>auto simp: analyze_try_def hashing_def\<close>)
qed

lemma analyze_reaches_compute:
  assumes "analyze H L s e resumeText jobDescText = (resp, s', tr)" and "AnalyzeGap \<in> set tr"
  shows "\<exists>r j b x tr1. resumeText = JStr r \<and> jobDescText = JStr j \<and>
           compute_and_store s e b (resumeHash H r) (jobDescHash H j) = (x, s', tr1) \<and>
           tr = [Sha256, Sha256, MemoryGet, DbFindUnique] @ tr1 \<and>
           resp = (case x of Inl m \<Rightarrow> error_response m | Inr y \<Rightarrow> y)"
proof -
  obtain x where t: "analyze_try H L s e resumeText jobDescText = (x, s', tr)"
    and r: "resp = (case x of Inl m \<Rightarrow> error_response m | Inr y \<Rightarrow> y)"
    using assms(1) by (auto simp: analyze_def split: prod.splits sum.splits)
  from analyze_try_reaches_compute [OF t assms(2)] obtain r0 j0 tr1 where
    a: "resumeText = JStr r0" "jobDescText = JStr j0"
      "lookup s e (resumeHash H r0) (jobDescHash H j0) = (x, s', tr1)" "tr = [Sha256, Sha256] @ tr1"
    by blast
  from a(4) assms(2) have "AnalyzeGap \<in> set tr1" by simp
  from lookup_reaches_compute [OF a(3) this] a r show ?thesis by auto
qed

subsection \<open>Failures of the model call\<close>

text \<open>
  When a request reaches \<^verbatim>\<open>analyzeGap\<close> and \<^verbatim>\<open>analyzeGap\<close> throws, the request is answered
  with the error response of the catch block for the thrown message, the memory cache is
  the one the request started from, and no insert and no write of the memory cache was
  made (the table changes only by what a concurrent request inserted).
\<close>

lemma compute_failure_response:
  assumes run: "analyze H L s e resumeText jobDescText = (resp, s', tr)"
    and reached: "AnalyzeGap \<in> set tr"
    and failed: "analyzeGap (ai e) = Inl m"
  shows "resp = error_response m \<and> (\<exists>status msg code. resp = Failure status msg code)
       \<and> s' = s\<lparr>table := concurrent_insert (other_writer e) (table s)\<rparr>
       \<and> MemorySet \<notin> set tr \<and> DbCreate \<notin> set tr
       \<and> ((ai e = ParsedWrongType \<or> (\<exists>v. ai e = Parsed v \<and> \<not> AnalysisSchema v)) \<longrightarrow>
            resp = Failure 422 ''AI returned invalid data. Please try again.'' ''AI_VALIDATION_ERROR'')
       \<and> (\<forall>cause. ai e = GenerateThrows cause \<longrightarrow> \<not> includes_sub cause ''malformed'' \<longrightarrow>
            resp = Failure 503 ''AI service is temporarily unavailable. Please try again later.''
                     ''AI_SERVICE_ERROR'')"
proof -
  from analyze_reaches_compute [OF run reached] obtain r j b x tr1 where
    c: "compute_and_store s e b (resumeHash H r) (jobDescHash H j) = (x, s', tr1)"
      "tr = [Sha256, Sha256, MemoryGet, DbFindUnique] @ tr1"
      "resp = (case x of Inl m \<Rightarrow> error_response m | Inr y \<Rightarrow> y)"
    by blast
  have r: "resp = error_response m" and s: "s' = s\<lparr>table := concurrent_insert (other_writer e) (table s)\<rparr>"
    and t: "tr = [Sha256, Sha256, MemoryGet, DbFindUnique, AnalyzeGap]"
    using c by (auto simp: compute_fail [OF failed])
  have f: "\<exists>status msg code. resp = Failure status msg code"
    unfolding r error_response_def by simp
  have shape: "(ai e = ParsedWrongType \<or> (\<exists>v. ai e = Parsed v \<and> \<not> AnalysisSchema v)) \<longrightarrow>
            resp = Failure 422 ''AI returned invalid data. Please try again.'' ''AI_VALIDATION_ERROR''"
    using failed unfolding r by (auto simp: analyzeGap_def error_response_malformed)
  have generic: "\<forall>cause. ai e = GenerateThrows cause \<longrightarrow> \<not> includes_sub cause ''malformed'' \<longrightarrow>
            resp = Failure 503 ''AI service is temporarily unavailable. Please try again later.''
                     ''AI_SERVICE_ERROR''"
  proof (intro allI impI)
    fix cause
    assume g: "ai e = GenerateThrows cause" and n: "\<not> includes_sub cause ''malformed''"
    from g failed have "m = ''AI Service Failed: '' @ cause"
      by (simp add: analyzeGap_def)
    then have "resp = error_response (''AI Service Failed: '' @ cause)"
      using r by (simp only:)
    then show "resp = Failure 503 ''AI service is temporarily unavailable. Please try again later.''
                     ''AI_SERVICE_ERROR''"
      using n by (simp only: error_response_service if_False)
  qed
  show ?thesis
    using r s t f shape generic by simp
qed


subsection \<open>No insert after a failed lookup\<close>

text \<open>
  Claim C10. When the lookup in the table throws, the same request makes no insert,
  whatever the store would do at that moment (\<open>db_create e\<close> is arbitrary): the table
  changes only by what a concurrent request inserted, and is unchanged without one. If
  \<^verbatim>\<open>analyzeGap\<close> succeeds, the only write is the one of the memory cache, which then
  holds the answered data under the request's key.
\<close>

theorem degraded_lookup_skips_insert:
  assumes valid: "50 \<le> length r" "50 \<le> length j"
    and miss: "memory_hit (memoryCache s) (deriveKey H r j) (now_probe e) = None"
    and down: "db_find e = FindThrows m"
    and run: "analyze H L s e (JStr r) (JStr j) = (resp, s', tr)"
  shows "DbCreate \<notin> set tr
       \<and> table s' = concurrent_insert (other_writer e) (table s)
       \<and> (other_writer e = None \<longrightarrow> table s' = table s)
       \<and> (\<forall>v. analyzeGap (ai e) = Inr v \<longrightarrow>
             tr = [Sha256, Sha256, MemoryGet, DbFindUnique, AnalyzeGap, MemorySet] \<and>
             (\<exists>d. resp = Success d \<and> cached d = Some False \<and>
                  memoryCache s' = (memoryCache s)(deriveKey H r j \<mapsto> \<lparr>data = d, timestamp = now_store e\<rparr>)))"
proof -
  have miss': "memory_hit (memoryCache s) (cacheKey (resumeHash H r) (jobDescHash H j)) (now_probe e) = None"
    using miss by (simp add: deriveKey_def)
  have l: "lookup s e (resumeHash H r) (jobDescHash H j) =
     (case compute_and_store s e False (resumeHash H r) (jobDescHash H j) of
        (x, s1, tr1) \<Rightarrow> (x, s1, [MemoryGet, DbFindUnique] @ tr1))"
    using lookup_miss [OF miss'] down by simp
  show ?thesis
  proof (cases "analyzeGap (ai e)")
    case (Inl msg)
    from run have "s' = s\<lparr>table := concurrent_insert (other_writer e) (table s)\<rparr>"
      and "tr = [Sha256, Sha256, MemoryGet, DbFindUnique, AnalyzeGap]"
      by (simp_all add: analyze_valid [OF valid] l compute_fail [OF Inl])
    with Inl show ?thesis by (simp add: concurrent_insert_def)
  next
    case (Inr v)
    from run have "s' = memory_set (s\<lparr>table := concurrent_insert (other_writer e) (table s)\<rparr>)
          (cacheKey (resumeHash H r) (jobDescHash H j))
          \<lparr> missingSkills = missingSkills v, learningSteps = learningSteps v,
            interviewQuestions = interviewQuestions v, id' = uuid e,
            createdAt = now_iso e, resumeHash_of = resumeHash H r, jobDescHash_of = jobDescHash H j,
            cached = Some False \<rparr> (now_store e)"
      and "tr = [Sha256, Sha256, MemoryGet, DbFindUnique, AnalyzeGap, MemorySet]"
      and "resp = Success \<lparr> missingSkills = missingSkills v, learningSteps = learningSteps v,
            interviewQuestions = interviewQuestions v, id' = uuid e,
            createdAt = now_iso e, resumeHash_of = resumeHash H r, jobDescHash_of = jobDescHash H j,
            cached = Some False \<rparr>"
      by (auto simp: analyze_valid [OF valid] l compute_ok_degraded [OF Inr] Let_def)
    with Inr show ?thesis
      by (simp add: memory_set_def deriveKey_def concurrent_insert_def)
  qed
qed

subsection \<open>A repeated request is served from the cache\<close>

text \<open>
  Claim C1. For two valid texts whose key is in neither tier, if \<^verbatim>\<open>analyzeGap\<close>
  succeeds, the first request answers with \<^verbatim>\<open>cached: false\<close>, and a second request with
  the same texts, whose probe comes less than \<open>CACHE_TTL\<close> after the first request's
  write of the memory cache, answers with the same object except for \<^verbatim>\<open>cached: true\<close>,
  and is served by the memory probe alone.
\<close>

theorem repeat_call_is_cached:
  assumes valid: "50 \<le> length r" "50 \<le> length j"
    and fresh: "memoryCache s (deriveKey H r j) = None"
               "table s (resumeHash H r, jobDescHash H j) = None"
    and computes: "analyzeGap (ai e1) = Inr v"
    and first: "analyze H L s e1 (JStr r) (JStr j) = (resp1, s1, tr1)"
    and second: "analyze H L s1 e2 (JStr r) (JStr j) = (resp2, s2, tr2)"
    and soon: "now_probe e2 - now_store e1 < CACHE_TTL"
  shows "\<exists>d. resp1 = Success d \<and> cached d = Some False
           \<and> resp2 = Success (d\<lparr>cached := Some True\<rparr>)
           \<and> missingSkills d = missingSkills v \<and> learningSteps d = learningSteps v
           \<and> interviewQuestions d = interviewQuestions v
           \<and> AnalyzeGap \<in> set tr1 \<and> tr2 = [Sha256, Sha256, MemoryGet] \<and> s2 = s1"
proof -
  let ?rh = "resumeHash H r" and ?jh = "jobDescHash H j"
  have miss: "memory_hit (memoryCache s) (cacheKey ?rh ?jh) (now_probe e1) = None"
    using fresh(1) by (simp add: memory_hit_def deriveKey_def)
  have l1: "lookup s e1 ?rh ?jh =
     (case compute_and_store s e1 (db_find e1 = FindRuns) ?rh ?jh of
        (x, s', tr) \<Rightarrow> (x, s', [MemoryGet, DbFindUnique] @ tr))"
    using lookup_miss [OF miss] fresh(2) by simp
  from compute_ok [OF computes, of s "db_find e1 = FindRuns" ?rh ?jh] obtain d s' tr where
    c: "compute_and_store s e1 (db_find e1 = FindRuns) ?rh ?jh = (Inr (Success d), s', tr)"
      "cached d = Some False"
      "memoryCache s' = (memoryCache s)(cacheKey ?rh ?jh \<mapsto> \<lparr>data = d, timestamp = now_store e1\<rparr>)"
      "AnalyzeGap \<in> set tr"
    by blast
  have payload: "missingSkills d = missingSkills v \<and> learningSteps d = learningSteps v
           \<and> interviewQuestions d = interviewQuestions v"
    using c(1) computes
    by (auto simp: compute_and_store_def Let_def spread_def create_def
        split: sum.splits prod.splits if_splits create_outcome.splits)
  from first have r1: "resp1 = Success d" and s1: "s1 = s'" and t1: "tr1 = [Sha256, Sha256, MemoryGet, DbFindUnique] @ tr"
    by (simp_all add: analyze_valid [OF valid] l1 c(1))
  have hit: "memory_hit (memoryCache s1) (cacheKey ?rh ?jh) (now_probe e2) = Some d"
    using soon by (simp add: s1 c(3) memory_hit_def)
  from second have "resp2 = Success (d\<lparr>cached := Some True\<rparr>)" "tr2 = [Sha256, Sha256, MemoryGet]" "s2 = s1"
    by (simp_all add: analyze_valid [OF valid] lookup_memory_hit [OF hit])
  with r1 c(2) c(4) t1 payload show ?thesis by simp
qed


lemma demo_valid: "50 \<le> length demo_resume" "50 \<le> length demo_jobDesc"
  by (simp_all add: demo_lengths)

lemma demo_schema: "analyzeGap (Parsed demo_result) = Inr demo_result"
  by (simp add: analyzeGap_def AnalysisSchema_def demo_result_def)

lemma empty_state_fresh:
  "memoryCache empty_state k = None" "table empty_state p = None"
  by (simp_all add: empty_state_def)

theorem repeat_call_is_cached_witness:
  "50 \<le> length demo_resume \<and> 50 \<le> length demo_jobDesc \<and>
   memoryCache empty_state (deriveKey demo_sha256 demo_resume demo_jobDesc) = None \<and>
   table empty_state (resumeHash demo_sha256 demo_resume, jobDescHash demo_sha256 demo_jobDesc) = None \<and>
   analyzeGap (ai demo_env) = Inr demo_result \<and>
   now_probe (demo_env\<lparr>now_probe := 5000\<rparr>) - now_store demo_env < CACHE_TTL \<and>
   (\<exists>d. fst (analyze demo_sha256 demo_coercion empty_state demo_env (JStr demo_resume) (JStr demo_jobDesc))
          = Success d \<and> cached d = Some False \<and>
        fst (analyze demo_sha256 demo_coercion
               (fst (snd (analyze demo_sha256 demo_coercion empty_state demo_env
                            (JStr demo_resume) (JStr demo_jobDesc))))
               (demo_env\<lparr>now_probe := 5000\<rparr>) (JStr demo_resume) (JStr demo_jobDesc))
          = Success (d\<lparr>cached := Some True\<rparr>))"
proof -
  obtain resp1 s1 tr1 where first:
    "analyze demo_sha256 demo_coercion empty_state demo_env (JStr demo_resume) (JStr demo_jobDesc) = (resp1, s1, tr1)"
    by (cases "analyze demo_sha256 demo_coercion empty_state demo_env (JStr demo_resume) (JStr demo_jobDesc)")
  obtain resp2 s2 tr2 where second:
    "analyze demo_sha256 demo_coercion s1 (demo_env\<lparr>now_probe := 5000\<rparr>) (JStr demo_resume) (JStr demo_jobDesc) = (resp2, s2, tr2)"
    by (cases "analyze demo_sha256 demo_coercion s1 (demo_env\<lparr>now_probe := 5000\<rparr>) (JStr demo_resume) (JStr demo_jobDesc)")
  have computes: "analyzeGap (ai demo_env) = Inr demo_result"
    by (simp add: demo_env_def demo_schema)
  have soon: "now_probe (demo_env\<lparr>now_probe := 5000\<rparr>) - now_store demo_env < CACHE_TTL"
    by (simp add: demo_env_def CACHE_TTL_def)
  from repeat_call_is_cached [OF demo_valid empty_state_fresh computes first second soon]
  show ?thesis
    using demo_valid computes soon by (auto simp: first second empty_state_fresh)
qed

lemma analyzeGap_outcomes:
  "analyzeGap (GenerateThrows cause) = Inl (''AI Service Failed: '' @ cause)"
  "analyzeGap ParsedWrongType = Inl ''AI returned malformed data. Please try again.''"
  "\<not> AnalysisSchema v \<Longrightarrow> analyzeGap (Parsed v) = Inl ''AI returned malformed data. Please try again.''"
  "AnalysisSchema v \<Longrightarrow> analyzeGap (Parsed v) = Inr v"
  by (simp_all add: analyzeGap_def)

lemma failing_call_on_empty_state:
  assumes "analyzeGap (ai e) = Inl m" and "other_writer e = None"
  shows "analyze demo_sha256 demo_coercion empty_state e (JStr demo_resume) (JStr demo_jobDesc) =
           (error_response m, empty_state, [Sha256, Sha256, MemoryGet, DbFindUnique, AnalyzeGap])"
proof -
  have miss: "memory_hit (memoryCache empty_state)
      (cacheKey (resumeHash demo_sha256 demo_resume) (jobDescHash demo_sha256 demo_jobDesc)) (now_probe e) = None"
    by (simp add: memory_hit_def empty_state_fresh)
  have same: "empty_state\<lparr>table := concurrent_insert (other_writer e) (table empty_state)\<rparr> = empty_state"
    by (simp add: assms(2) concurrent_insert_def empty_state_def)
  show ?thesis
    by (simp add: analyze_valid [OF demo_valid] lookup_miss [OF miss] empty_state_fresh
        compute_fail [OF assms(1)] same)
qed

text \<open>
  Claim C8. The claim holds of a failing call in that the failure is the answer and
  nothing is written, but not in that the code of a malformed answer is distinct from
  the one of a failed call. For the texts of the example and empty tiers: a call of the
  model that fails with the message \<^verbatim>\<open>malformed request\<close> is answered with status 422 and
  the code \<^verbatim>\<open>AI_VALIDATION_ERROR\<close>, exactly as an answer of the model with no missing skill
  (which fails the schema) and as an answer that has not the schema's types; a call that
  fails with the message \<^verbatim>\<open>fetch failed\<close> is answered with status 503 and the code
  \<^verbatim>\<open>AI_SERVICE_ERROR\<close>. In each case the state is unchanged and the last call made is
  the one of \<^verbatim>\<open>analyzeGap\<close>.
\<close>

theorem failed_call_answered_as_malformed:
  "analyze demo_sha256 demo_coercion empty_state (demo_env\<lparr>ai := GenerateThrows ''malformed request''\<rparr>)
     (JStr demo_resume) (JStr demo_jobDesc) =
     (Failure 422 ''AI returned invalid data. Please try again.'' ''AI_VALIDATION_ERROR'',
      empty_state, [Sha256, Sha256, MemoryGet, DbFindUnique, AnalyzeGap])
   \<and> analyze demo_sha256 demo_coercion empty_state
       (demo_env\<lparr>ai := Parsed (demo_result\<lparr>missingSkills := []\<rparr>)\<rparr>)
       (JStr demo_resume) (JStr demo_jobDesc) =
     (Failure 422 ''AI returned invalid data. Please try again.'' ''AI_VALIDATION_ERROR'',
      empty_state, [Sha256, Sha256, MemoryGet, DbFindUnique, AnalyzeGap])
   \<and> analyze demo_sha256 demo_coercion empty_state (demo_env\<lparr>ai := ParsedWrongType\<rparr>)
       (JStr demo_resume) (JStr demo_jobDesc) =
     (Failure 422 ''AI returned invalid data. Please try again.'' ''AI_VALIDATION_ERROR'',
      empty_state, [Sha256, Sha256, MemoryGet, DbFindUnique, AnalyzeGap])
   \<and> analyze demo_sha256 demo_coercion empty_state (demo_env\<lparr>ai := GenerateThrows ''fetch failed''\<rparr>)
       (JStr demo_resume) (JStr demo_jobDesc) =
     (Failure 503 ''AI service is temporarily unavailable. Please try again later.'' ''AI_SERVICE_ERROR'',
      empty_state, [Sha256, Sha256, MemoryGet, DbFindUnique, AnalyzeGap])"
proof (intro conjI)
  have alone: "other_writer (demo_env\<lparr>ai := x\<rparr>) = None" for x
    by (simp add: demo_env_def)
  have generic: "analyzeGap (ai (demo_env\<lparr>ai := GenerateThrows cause\<rparr>)) = Inl (''AI Service Failed: '' @ cause)"
    for cause
    by (simp add: analyzeGap_outcomes)
  have wrong: "analyzeGap (ai (demo_env\<lparr>ai := ParsedWrongType\<rparr>)) =
      Inl ''AI returned malformed data. Please try again.''"
    by (simp add: analyzeGap_outcomes)
  have "\<not> AnalysisSchema (demo_result\<lparr>missingSkills := []\<rparr>)"
    by (simp add: AnalysisSchema_def)
  then have shape: "analyzeGap (ai (demo_env\<lparr>ai := Parsed (demo_result\<lparr>missingSkills := []\<rparr>)\<rparr>)) =
      Inl ''AI returned malformed data. Please try again.''"
    by (simp add: analyzeGap_outcomes)
  have r1: "error_response (''AI Service Failed: '' @ ''malformed request'') =
      Failure 422 ''AI returned invalid data. Please try again.'' ''AI_VALIDATION_ERROR''"
    by (simp only: error_response_service) simp
  have r2: "error_response (''AI Service Failed: '' @ ''fetch failed'') =
      Failure 503 ''AI service is temporarily unavailable. Please try again later.'' ''AI_SERVICE_ERROR''"
    by (simp only: error_response_service) simp
  show "analyze demo_sha256 demo_coercion empty_state (demo_env\<lparr>ai := GenerateThrows ''malformed request''\<rparr>)
     (JStr demo_resume) (JStr demo_jobDesc) =
     (Failure 422 ''AI returned invalid data. Please try again.'' ''AI_VALIDATION_ERROR'',
      empty_state, [Sha256, Sha256, MemoryGet, DbFindUnique, AnalyzeGap])"
    by (simp only: failing_call_on_empty_state [OF generic alone] r1)
  show "analyze demo_sha256 demo_coercion empty_state
       (demo_env\<lparr>ai := Parsed (demo_result\<lparr>missingSkills := []\<rparr>)\<rparr>)
       (JStr demo_resume) (JStr demo_jobDesc) =
     (Failure 422 ''AI returned invalid data. Please try again.'' ''AI_VALIDATION_ERROR'',
      empty_state, [Sha256, Sha256, MemoryGet, DbFindUnique, AnalyzeGap])"
    by (simp only: failing_call_on_empty_state [OF shape alone] error_response_malformed)
  show "analyze demo_sha256 demo_coercion empty_state (demo_env\<lparr>ai := ParsedWrongType\<rparr>)
       (JStr demo_resume) (JStr demo_jobDesc) =
     (Failure 422 ''AI returned invalid data. Please try again.'' ''AI_VALIDATION_ERROR'',
      empty_state, [Sha256, Sha256, MemoryGet, DbFindUnique, AnalyzeGap])"
    by (simp only: failing_call_on_empty_state [OF wrong alone] error_response_malformed)
  show "analyze demo_sha256 demo_coercion empty_state (demo_env\<lparr>ai := GenerateThrows ''fetch failed''\<rparr>)
       (JStr demo_resume) (JStr demo_jobDesc) =
     (Failure 503 ''AI service is temporarily unavailable. Please try again later.'' ''AI_SERVICE_ERROR'',
      empty_state, [Sha256, Sha256, MemoryGet, DbFindUnique, AnalyzeGap])"
    by (simp only: failing_call_on_empty_state [OF generic alone] r2)
qed

theorem degraded_lookup_skips_insert_witness:
  "50 \<le> length demo_resume \<and> 50 \<le> length demo_jobDesc \<and>
   memory_hit (memoryCache empty_state) (deriveKey demo_sha256 demo_resume demo_jobDesc)
     (now_probe (demo_env\<lparr>db_find := FindThrows ''database server unreachable''\<rparr>)) = None \<and>
   other_writer (demo_env\<lparr>db_find := FindThrows ''database server unreachable''\<rparr>) = None \<and>
   analyzeGap (ai (demo_env\<lparr>db_find := FindThrows ''database server unreachable''\<rparr>)) = Inr demo_result \<and>
   (\<exists>resp s' tr.
      analyze demo_sha256 demo_coercion empty_state
        (demo_env\<lparr>db_find := FindThrows ''database server unreachable''\<rparr>)
        (JStr demo_resume) (JStr demo_jobDesc) = (resp, s', tr) \<and>
      DbCreate \<notin> set tr \<and> table s' = table empty_state \<and>
      tr = [Sha256, Sha256, MemoryGet, DbFindUnique, AnalyzeGap, MemorySet])"
proof -
  let ?e = "demo_env\<lparr>db_find := FindThrows ''database server unreachable''\<rparr>"
  have miss: "memory_hit (memoryCache empty_state) (deriveKey demo_sha256 demo_resume demo_jobDesc)
     (now_probe ?e) = None"
    by (simp add: memory_hit_def empty_state_fresh)
  have down: "db_find ?e = FindThrows ''database server unreachable''"
    by simp
  have alone: "other_writer ?e = None"
    by (simp add: demo_env_def)
  have computes: "analyzeGap (ai ?e) = Inr demo_result"
    by (simp add: demo_env_def demo_schema)
  obtain resp s' tr where run:
    "analyze demo_sha256 demo_coercion empty_state ?e (JStr demo_resume) (JStr demo_jobDesc) = (resp, s', tr)"
    by (cases "analyze demo_sha256 demo_coercion empty_state ?e (JStr demo_resume) (JStr demo_jobDesc)")
  from degraded_lookup_skips_insert [OF demo_valid miss down run]
  show ?thesis
    using demo_valid miss alone computes run by auto
qed

lemma lower_fixes_punctuation:
  "whitespace_or_punctuation c \<Longrightarrow> toLowerCase_char c = c"
  by (auto simp: whitespace_or_punctuation_def toLowerCase_char_def isWhiteSpace_def Let_def)

lemma lower_punctuation_origin:
  "whitespace_or_punctuation (toLowerCase_char c) \<Longrightarrow> toLowerCase_char c = c"
  by (auto simp: whitespace_or_punctuation_def toLowerCase_char_def isWhiteSpace_def Let_def
      split: if_splits)

lemma lower_keeps_whitespace: "isWhiteSpace (toLowerCase_char c) = isWhiteSpace c"
  by (auto simp: toLowerCase_char_def isWhiteSpace_def Let_def)

lemma lowered_equal_imp_equal:
  "map toLowerCase_char x = map toLowerCase_char y \<Longrightarrow>
   filter (\<lambda>c. \<not> whitespace_or_punctuation c) x = filter (\<lambda>c. \<not> whitespace_or_punctuation c) y \<Longrightarrow>
   x = y"
proof (induction x arbitrary: y)
  case Nil
  then show ?case by simp
next
  case (Cons c xs)
  then obtain d ys where y: "y = d # ys" and cd: "toLowerCase_char c = toLowerCase_char d"
    and rest: "map toLowerCase_char xs = map toLowerCase_char ys"
    by (cases y) auto
  have same: "whitespace_or_punctuation c \<or> whitespace_or_punctuation d \<Longrightarrow> c = d"
    using cd lower_fixes_punctuation lower_punctuation_origin by metis
  show ?case
  proof (cases "whitespace_or_punctuation c \<or> whitespace_or_punctuation d")
    case True
    with same have "c = d" by simp
    with True Cons.prems(2) y have "filter (\<lambda>c. \<not> whitespace_or_punctuation c) xs = filter (\<lambda>c. \<not> whitespace_or_punctuation c) ys"
      by simp
    with Cons.IH rest \<open>c = d\<close> y show ?thesis by simp
  next
    case False
    with Cons.prems(2) y have "c = d"
      and "filter (\<lambda>c. \<not> whitespace_or_punctuation c) xs = filter (\<lambda>c. \<not> whitespace_or_punctuation c) ys"
      by simp_all
    with Cons.IH rest y show ?thesis by simp
  qed
qed

lemma cacheKey_left: "cacheKey a c = cacheKey b c \<longleftrightarrow> a = b"
  by (simp add: cacheKey_def)

lemma cacheKey_right: "cacheKey c a = cacheKey c b \<longleftrightarrow> a = b"
  by (simp add: cacheKey_def)

lemma cacheKey_swap:
  "length a = length b \<Longrightarrow> cacheKey a b = cacheKey b a \<longleftrightarrow> a = b"
  by (auto simp: cacheKey_def)

lemma trim_padding:
  assumes "\<forall>c \<in> set pre \<union> set post. isWhiteSpace c"
  shows "trim (pre @ t @ post) = trim t"
proof -
  have pre: "dropWhile isWhiteSpace (pre @ ys) = dropWhile isWhiteSpace ys" for ys
    using assms by (intro dropWhile_append2) simp
  have post: "dropWhile isWhiteSpace (rev post @ ys) = dropWhile isWhiteSpace ys" for ys
    using assms by (intro dropWhile_append2) simp
  show ?thesis
  proof (cases "\<exists>c \<in> set t. \<not> isWhiteSpace c")
    case True
    then obtain c where c: "c \<in> set t" "\<not> isWhiteSpace c"
      by blast
    have "dropWhile isWhiteSpace (t @ post) = dropWhile isWhiteSpace t @ post"
      using c by (rule dropWhile_append1)
    then show ?thesis
      by (simp add: trim_def pre post)
  next
    case False
    with assms have a: "dropWhile isWhiteSpace (t @ post) = []"
      by auto
    from False have b: "dropWhile isWhiteSpace t = []"
      by auto
    show ?thesis
      unfolding trim_def pre a b by simp
  qed
qed

lemma trim_toLowerCase: "trim (toLowerCase t) = toLowerCase (trim t)"
proof -
  have "isWhiteSpace \<circ> toLowerCase_char = isWhiteSpace"
    by (rule ext) (simp add: lower_keeps_whitespace)
  then show ?thesis
    by (simp add: trim_def toLowerCase_def dropWhile_map rev_map)
qed

text \<open>
  White space around a text and the case of its letters do not reach the key.
\<close>

lemma key_ignores_padding_and_case:
  assumes "\<forall>c \<in> set pre \<union> set post. isWhiteSpace c" and "toLowerCase t' = toLowerCase t"
  shows "normalize (pre @ t' @ post) = normalize t"
    and "deriveKey H (pre @ t' @ post) j = deriveKey H t j"
    and "deriveKey H r (pre @ t' @ post) = deriveKey H r t"
proof -
  have "normalize (pre @ t' @ post) = toLowerCase (trim t')"
    using assms(1) by (simp add: normalize_def trim_padding)
  also have "\<dots> = trim (toLowerCase t')"
    by (simp add: trim_toLowerCase)
  also have "\<dots> = normalize t"
    by (simp add: assms(2) trim_toLowerCase normalize_def)
  finally show n: "normalize (pre @ t' @ post) = normalize t" .
  show "deriveKey H (pre @ t' @ post) j = deriveKey H t j"
    "deriveKey H r (pre @ t' @ post) = deriveKey H r t"
    by (simp_all add: deriveKey_def resumeHash_def jobDescHash_def n)
qed

subsection \<open>The key depends on the normalised texts only\<close>

text \<open>
  Claim C5. Two pairs of texts that agree after \<^verbatim>\<open>trim\<close> and \<^verbatim>\<open>toLowerCase\<close> of each text
  have the same two digests and the same cache key. Two texts without leading or
  trailing white space that differ only in white space or punctuation have different
  normalised forms, and, the digest function having no collision on these two forms,
  different keys in either role, whatever the other text \<open>t\<close> is.
\<close>

theorem key_normalizes_edges_only:
  "(normalize r = normalize r' \<longrightarrow> normalize j = normalize j' \<longrightarrow>
      deriveKey H r j = deriveKey H r' j' \<and>
      resumeHash H r = resumeHash H r' \<and> jobDescHash H j = jobDescHash H j')
   \<and> (trim x = x \<longrightarrow> trim y = y \<longrightarrow> differ_only_in_whitespace_or_punctuation x y \<longrightarrow>
        inj_on H {normalize x, normalize y} \<longrightarrow>
        normalize x \<noteq> normalize y \<and>
        deriveKey H x t \<noteq> deriveKey H y t \<and> deriveKey H t x \<noteq> deriveKey H t y)"
proof (intro conjI impI)
  assume "normalize r = normalize r'" "normalize j = normalize j'"
  then show "deriveKey H r j = deriveKey H r' j'" "resumeHash H r = resumeHash H r'"
    "jobDescHash H j = jobDescHash H j'"
    by (simp_all add: deriveKey_def resumeHash_def jobDescHash_def)
next
  assume tx: "trim x = x" and ty: "trim y = y"
    and d: "differ_only_in_whitespace_or_punctuation x y"
    and inj: "inj_on H {normalize x, normalize y}"
  have n: "normalize x = map toLowerCase_char x" "normalize y = map toLowerCase_char y"
    by (simp_all add: normalize_def toLowerCase_def tx ty)
  show ne: "normalize x \<noteq> normalize y"
    using d lowered_equal_imp_equal [of x y]
    by (auto simp: n differ_only_in_whitespace_or_punctuation_def)
  with inj have h: "H (normalize x) \<noteq> H (normalize y)"
    by (auto simp: inj_on_def)
  show "deriveKey H x t \<noteq> deriveKey H y t"
    using h by (simp add: deriveKey_def resumeHash_def jobDescHash_def cacheKey_left)
  show "deriveKey H t x \<noteq> deriveKey H t y"
    using h by (simp add: deriveKey_def resumeHash_def jobDescHash_def cacheKey_right)
qed

subsection \<open>The key is an ordered pair\<close>

text \<open>
  Claim C6. The key is the resume digest, a colon, and the job-description digest, in
  that order: with digests of 64 characters both digests are read back from the key, and
  two keys are equal exactly when their resume digests are equal and their
  job-description digests are equal. For two texts with distinct normalised content, on
  which the digest function has no collision, the key derived with the texts in swapped
  roles therefore differs from the original one, as a string and as a pair of digests;
  an entry of the memory cache or a row of the table stored under the original key is
  not what the swapped request finds.
\<close>

theorem key_is_ordered_pair:
  assumes distinct: "normalize r \<noteq> normalize j"
    and no_collision: "inj_on H {normalize r, normalize j}"
    and fixed_length: "length (H (normalize r)) = 64" "length (H (normalize j)) = 64"
  shows "take 64 (deriveKey H r j) = resumeHash H r
       \<and> drop 65 (deriveKey H r j) = jobDescHash H j
       \<and> (\<forall>a b. length (H (normalize a)) = 64 \<longrightarrow>
             (deriveKey H a b = deriveKey H r j \<longleftrightarrow>
                resumeHash H a = resumeHash H r \<and> jobDescHash H b = jobDescHash H j))
       \<and> deriveKey H j r \<noteq> deriveKey H r j
       \<and> (resumeHash H j, jobDescHash H r) \<noteq> (resumeHash H r, jobDescHash H j)
       \<and> memory_hit (mc(deriveKey H r j \<mapsto> entry)) (deriveKey H j r) now = memory_hit mc (deriveKey H j r) now
       \<and> findUnique FindRuns (t((resumeHash H r, jobDescHash H j) \<mapsto> row)) (resumeHash H j) (jobDescHash H r)
           = findUnique FindRuns t (resumeHash H j) (jobDescHash H r)"
proof -
  have h: "H (normalize r) \<noteq> H (normalize j)"
    using distinct no_collision by (auto simp: inj_on_def)
  have first: "take 64 (deriveKey H r j) = resumeHash H r"
    using fixed_length(1) by (simp add: deriveKey_def cacheKey_def resumeHash_def)
  have second: "drop 65 (deriveKey H r j) = jobDescHash H j"
    using fixed_length(1) by (simp add: deriveKey_def cacheKey_def resumeHash_def)
  have pair: "\<forall>a b. length (H (normalize a)) = 64 \<longrightarrow>
             (deriveKey H a b = deriveKey H r j \<longleftrightarrow>
                resumeHash H a = resumeHash H r \<and> jobDescHash H b = jobDescHash H j)"
    using fixed_length(1) by (simp add: deriveKey_def cacheKey_def resumeHash_def jobDescHash_def)
  have k: "deriveKey H j r \<noteq> deriveKey H r j"
    using h fixed_length
    by (simp add: deriveKey_def resumeHash_def jobDescHash_def cacheKey_swap)
  have p: "(resumeHash H j, jobDescHash H r) \<noteq> (resumeHash H r, jobDescHash H j)"
    using h by (simp add: resumeHash_def jobDescHash_def)
  have m: "memory_hit (mc(deriveKey H r j \<mapsto> entry)) (deriveKey H j r) now = memory_hit mc (deriveKey H j r) now"
    using k by (simp add: memory_hit_def)
  have f: "findUnique FindRuns (t((resumeHash H r, jobDescHash H j) \<mapsto> row)) (resumeHash H j) (jobDescHash H r)
           = findUnique FindRuns t (resumeHash H j) (jobDescHash H r)"
    using p by (auto simp: findUnique_def)
  show ?thesis
    using first second pair k p m f by blast
qed

lemma normalize_demo: "normalize demo_resume = demo_resume" "normalize demo_jobDesc = demo_jobDesc"
  unfolding demo_resume_def demo_jobDesc_def by code_simp+

lemma demo_digests:
  "demo_sha256 demo_resume = ''11ee391211c6256460b6ed375957fadd8061cafbb31daf967db875aebd5aaad4''"
  "demo_sha256 demo_jobDesc = ''bbeb514bf12fdef276e7fde1f3cadc8fd1ec8ec070d893bd98f5d1b383de66cf''"
  "demo_sha256 ''hello, world'' = ''09ca7e4eaa6e8ae9c7d261167129184883644d07dfba7cbfbc4c8a2e08360d5b''"
  "demo_sha256 ''hello world'' = ''b94d27b9934d3e08a52e52d7da7dabfac484efe37a5380ee9088f7ace2efcde9''"
  unfolding demo_sha256_def demo_resume_def demo_jobDesc_def by code_simp+

theorem key_normalizes_edges_only_witness:
  "normalize ''  Hello, World  '' = normalize ''hello, world'' \<and>
   normalize ''Senior ENGINEER'' = normalize ''senior engineer '' \<and>
   deriveKey demo_sha256 ''  Hello, World  '' ''Senior ENGINEER'' =
     deriveKey demo_sha256 ''hello, world'' ''senior engineer '' \<and>
   trim ''hello, world'' = ''hello, world'' \<and> trim ''hello world'' = ''hello world'' \<and>
   differ_only_in_whitespace_or_punctuation ''hello, world'' ''hello world'' \<and>
   inj_on demo_sha256 {normalize ''hello, world'', normalize ''hello world''} \<and>
   deriveKey demo_sha256 ''hello, world'' demo_jobDesc \<noteq> deriveKey demo_sha256 ''hello world'' demo_jobDesc \<and>
   deriveKey demo_sha256 demo_resume ''hello, world'' \<noteq> deriveKey demo_sha256 demo_resume ''hello world''"
proof -
  have a: "normalize ''  Hello, World  '' = normalize ''hello, world''"
    by code_simp
  have b: "normalize ''Senior ENGINEER'' = normalize ''senior engineer ''"
    by code_simp
  have c: "trim ''hello, world'' = ''hello, world''" "trim ''hello world'' = ''hello world''"
    by code_simp+
  have d: "differ_only_in_whitespace_or_punctuation ''hello, world'' ''hello world''"
    by code_simp
  have n: "normalize ''hello, world'' = ''hello, world''" "normalize ''hello world'' = ''hello world''"
    by code_simp+
  have e: "inj_on demo_sha256 {normalize ''hello, world'', normalize ''hello world''}"
    unfolding n by (auto simp: inj_on_def demo_digests)
  from key_normalizes_edges_only [of "''  Hello, World  ''" "''hello, world''" "''Senior ENGINEER''"
      "''senior engineer ''" demo_sha256 "''hello, world''" "''hello world''"] a b c d e
  have "deriveKey demo_sha256 ''  Hello, World  '' ''Senior ENGINEER'' =
     deriveKey demo_sha256 ''hello, world'' ''senior engineer ''"
    and "\<And>t. deriveKey demo_sha256 ''hello, world'' t \<noteq> deriveKey demo_sha256 ''hello world'' t"
    and "\<And>t. deriveKey demo_sha256 t ''hello, world'' \<noteq> deriveKey demo_sha256 t ''hello world''"
    by blast+
  with a b c d e show ?thesis by blast
qed

theorem key_is_ordered_pair_witness:
  "normalize demo_resume \<noteq> normalize demo_jobDesc \<and>
   inj_on demo_sha256 {normalize demo_resume, normalize demo_jobDesc} \<and>
   length (demo_sha256 (normalize demo_resume)) = 64 \<and>
   length (demo_sha256 (normalize demo_jobDesc)) = 64 \<and>
   take 64 (deriveKey demo_sha256 demo_resume demo_jobDesc)
     = ''11ee391211c6256460b6ed375957fadd8061cafbb31daf967db875aebd5aaad4'' \<and>
   drop 65 (deriveKey demo_sha256 demo_resume demo_jobDesc)
     = ''bbeb514bf12fdef276e7fde1f3cadc8fd1ec8ec070d893bd98f5d1b383de66cf'' \<and>
   (deriveKey demo_sha256 demo_jobDesc demo_resume = deriveKey demo_sha256 demo_resume demo_jobDesc \<longleftrightarrow>
      resumeHash demo_sha256 demo_jobDesc = resumeHash demo_sha256 demo_resume \<and>
      jobDescHash demo_sha256 demo_resume = jobDescHash demo_sha256 demo_jobDesc) \<and>
   deriveKey demo_sha256 demo_jobDesc demo_resume \<noteq> deriveKey demo_sha256 demo_resume demo_jobDesc \<and>
   (resumeHash demo_sha256 demo_jobDesc, jobDescHash demo_sha256 demo_resume)
     \<noteq> (resumeHash demo_sha256 demo_resume, jobDescHash demo_sha256 demo_jobDesc)"
proof -
  have a: "normalize demo_resume \<noteq> normalize demo_jobDesc"
    by (simp add: normalize_demo) (simp add: demo_resume_def demo_jobDesc_def)
  have b: "inj_on demo_sha256 {normalize demo_resume, normalize demo_jobDesc}"
    by (auto simp: inj_on_def normalize_demo demo_digests)
  have c: "length (demo_sha256 (normalize demo_resume)) = 64"
    "length (demo_sha256 (normalize demo_jobDesc)) = 64"
    by (simp_all add: normalize_demo demo_digests)
  have d: "resumeHash demo_sha256 demo_resume = ''11ee391211c6256460b6ed375957fadd8061cafbb31daf967db875aebd5aaad4''"
    "jobDescHash demo_sha256 demo_jobDesc = ''bbeb514bf12fdef276e7fde1f3cadc8fd1ec8ec070d893bd98f5d1b383de66cf''"
    by (simp_all add: resumeHash_def jobDescHash_def normalize_demo demo_digests)
  note t = key_is_ordered_pair [OF a b c]
  from t have e: "take 64 (deriveKey demo_sha256 demo_resume demo_jobDesc) = resumeHash demo_sha256 demo_resume"
    "drop 65 (deriveKey demo_sha256 demo_resume demo_jobDesc) = jobDescHash demo_sha256 demo_jobDesc"
    by blast+
  from t c(2) have f: "deriveKey demo_sha256 demo_jobDesc demo_resume = deriveKey demo_sha256 demo_resume demo_jobDesc \<longleftrightarrow>
      resumeHash demo_sha256 demo_jobDesc = resumeHash demo_sha256 demo_resume \<and>
      jobDescHash demo_sha256 demo_resume = jobDescHash demo_sha256 demo_jobDesc"
    by blast
  from t have g: "deriveKey demo_sha256 demo_jobDesc demo_resume \<noteq> deriveKey demo_sha256 demo_resume demo_jobDesc"
    "(resumeHash demo_sha256 demo_jobDesc, jobDescHash demo_sha256 demo_resume)
     \<noteq> (resumeHash demo_sha256 demo_resume, jobDescHash demo_sha256 demo_jobDesc)"
    by blast+
  show ?thesis
    using a b c e [unfolded d] f g by blast
qed

lemma demo_hashes:
  "resumeHash demo_sha256 demo_resume = ''11ee391211c6256460b6ed375957fadd8061cafbb31daf967db875aebd5aaad4''"
  "jobDescHash demo_sha256 demo_jobDesc = ''bbeb514bf12fdef276e7fde1f3cadc8fd1ec8ec070d893bd98f5d1b383de66cf''"
  by (simp_all add: resumeHash_def jobDescHash_def normalize_demo demo_digests)

subsection \<open>A lost race for the insert\<close>

text \<open>
  Claim C2, as amended. When the lookup found no row, a concurrent request inserts a row
  for the same key while \<^verbatim>\<open>analyzeGap\<close> runs, and the store is reachable, the insert of
  this request fails on the uniqueness constraint and the handler absorbs the failure:
  the caller gets the freshly computed result with \<^verbatim>\<open>cached: false\<close>, the table keeps the
  concurrent row as its row for the key, the table is not read again, and the memory
  cache stores the freshly computed result with its own \<^verbatim>\<open>id\<close> and \<^verbatim>\<open>createdAt\<close>.
\<close>

theorem constraint_violation_absorbed:
  assumes valid: "50 \<le> length r" "50 \<le> length j"
    and miss: "memory_hit (memoryCache s) (deriveKey H r j) (now_probe e) = None"
    and found_nothing: "db_find e = FindRuns" "table s (resumeHash H r, jobDescHash H j) = None"
    and computes: "analyzeGap (ai e) = Inr v"
    and concurrent: "other_writer e = Some row" "resumeHash_of row = resumeHash H r"
      "jobDescHash_of row = jobDescHash H j"
    and reachable: "db_create e = CreateRuns new_id new_createdAt"
  shows "create (db_create e) (concurrent_insert (other_writer e) (table s)) (resumeHash H r) (jobDescHash H j) v
           = Inl ''Unique constraint failed on the fields: (resumeHash,jobDescHash)''
       \<and> (\<exists>d. analyze H L s e (JStr r) (JStr j) =
             (Success d,
              \<lparr> memoryCache = (memoryCache s)(deriveKey H r j \<mapsto> \<lparr>data = d, timestamp = now_store e\<rparr>),
                table = (table s)((resumeHash H r, jobDescHash H j) \<mapsto> row) \<rparr>,
              [Sha256, Sha256, MemoryGet, DbFindUnique, AnalyzeGap, DbCreate, MemorySet])
           \<and> cached d = Some False \<and> id' d = uuid e \<and> createdAt d = now_iso e
           \<and> missingSkills d = missingSkills v \<and> learningSteps d = learningSteps v
           \<and> interviewQuestions d = interviewQuestions v)"
proof -
  let ?rh = "resumeHash H r" and ?jh = "jobDescHash H j"
  have t1: "concurrent_insert (other_writer e) (table s) = (table s)((?rh, ?jh) \<mapsto> row)"
    using concurrent found_nothing(2) by (simp add: concurrent_insert_def dom_def)
  have v: "create (db_create e) (concurrent_insert (other_writer e) (table s)) ?rh ?jh v
           = Inl ''Unique constraint failed on the fields: (resumeHash,jobDescHash)''"
    unfolding t1 using reachable by (simp add: create_def)
  have miss': "memory_hit (memoryCache s) (cacheKey ?rh ?jh) (now_probe e) = None"
    using miss by (simp add: deriveKey_def)
  have l: "lookup s e ?rh ?jh =
     (case compute_and_store s e True ?rh ?jh of (x, s', tr) \<Rightarrow> (x, s', [MemoryGet, DbFindUnique] @ tr))"
    using lookup_miss [OF miss'] found_nothing by simp
  let ?d = "\<lparr> missingSkills = missingSkills v, learningSteps = learningSteps v,
              interviewQuestions = interviewQuestions v, id' = uuid e,
              createdAt = now_iso e, resumeHash_of = ?rh, jobDescHash_of = ?jh,
              cached = Some False \<rparr>"
  have c: "compute_and_store s e True ?rh ?jh =
      (Inr (Success ?d),
       memory_set (s\<lparr>table := (table s)((?rh, ?jh) \<mapsto> row)\<rparr>) (cacheKey ?rh ?jh) ?d (now_store e),
       [AnalyzeGap, DbCreate, MemorySet])"
    using v by (simp add: compute_and_store_def computes Let_def t1)
  have "analyze H L s e (JStr r) (JStr j) =
             (Success ?d,
              \<lparr> memoryCache = (memoryCache s)(deriveKey H r j \<mapsto> \<lparr>data = ?d, timestamp = now_store e\<rparr>),
                table = (table s)((?rh, ?jh) \<mapsto> row) \<rparr>,
              [Sha256, Sha256, MemoryGet, DbFindUnique, AnalyzeGap, DbCreate, MemorySet])"
    by (simp add: analyze_valid [OF valid] l c memory_set_def deriveKey_def)
  then have "\<exists>d. analyze H L s e (JStr r) (JStr j) =
             (Success d,
              \<lparr> memoryCache = (memoryCache s)(deriveKey H r j \<mapsto> \<lparr>data = d, timestamp = now_store e\<rparr>),
                table = (table s)((?rh, ?jh) \<mapsto> row) \<rparr>,
              [Sha256, Sha256, MemoryGet, DbFindUnique, AnalyzeGap, DbCreate, MemorySet])
           \<and> cached d = Some False \<and> id' d = uuid e \<and> createdAt d = now_iso e
           \<and> missingSkills d = missingSkills v \<and> learningSteps d = learningSteps v
           \<and> interviewQuestions d = interviewQuestions v"
    by (intro exI [of _ ?d]) simp
  with v show ?thesis by blast
qed

theorem constraint_violation_absorbed_witness:
  "50 \<le> length demo_resume \<and> 50 \<le> length demo_jobDesc \<and>
   memory_hit (memoryCache empty_state) (deriveKey demo_sha256 demo_resume demo_jobDesc) (now_probe race_env) = None \<and>
   db_find race_env = FindRuns \<and>
   table empty_state (resumeHash demo_sha256 demo_resume, jobDescHash demo_sha256 demo_jobDesc) = None \<and>
   analyzeGap (ai race_env) = Inr demo_result \<and>
   other_writer race_env = Some other_row \<and>
   resumeHash_of other_row = resumeHash demo_sha256 demo_resume \<and>
   jobDescHash_of other_row = jobDescHash demo_sha256 demo_jobDesc \<and>
   db_create race_env = CreateRuns ''row-1'' ''2026-01-01T00:00:00.001Z'' \<and>
   (\<exists>d s'. analyze demo_sha256 demo_coercion empty_state race_env (JStr demo_resume) (JStr demo_jobDesc) =
             (Success d, s', [Sha256, Sha256, MemoryGet, DbFindUnique, AnalyzeGap, DbCreate, MemorySet])
           \<and> cached d = Some False \<and> id' d = ''5b2c''
           \<and> table s' (resumeHash demo_sha256 demo_resume, jobDescHash demo_sha256 demo_jobDesc) = Some other_row)"
proof -
  have miss: "memory_hit (memoryCache empty_state) (deriveKey demo_sha256 demo_resume demo_jobDesc) (now_probe race_env) = None"
    by (simp add: memory_hit_def empty_state_fresh)
  have f: "db_find race_env = FindRuns"
    by (simp add: race_env_def demo_env_def)
  have c: "analyzeGap (ai race_env) = Inr demo_result"
    by (simp add: race_env_def demo_env_def demo_schema)
  have w: "other_writer race_env = Some other_row"
    by (simp add: race_env_def)
  have k: "resumeHash_of other_row = resumeHash demo_sha256 demo_resume"
    "jobDescHash_of other_row = jobDescHash demo_sha256 demo_jobDesc"
    by (simp_all add: demo_hashes other_row_def)
  have r: "db_create race_env = CreateRuns ''row-1'' ''2026-01-01T00:00:00.001Z''"
    by (simp add: race_env_def demo_env_def)
  have u: "uuid race_env = ''5b2c''"
    by (simp add: race_env_def demo_env_def)
  from constraint_violation_absorbed [OF demo_valid miss f empty_state_fresh(2) c w k r, of demo_coercion]
  obtain d where
    "analyze demo_sha256 demo_coercion empty_state race_env (JStr demo_resume) (JStr demo_jobDesc) =
       (Success d,
        \<lparr> memoryCache = (memoryCache empty_state)(deriveKey demo_sha256 demo_resume demo_jobDesc
             \<mapsto> \<lparr>data = d, timestamp = now_store race_env\<rparr>),
          table = (table empty_state)((resumeHash demo_sha256 demo_resume, jobDescHash demo_sha256 demo_jobDesc) \<mapsto> other_row) \<rparr>,
        [Sha256, Sha256, MemoryGet, DbFindUnique, AnalyzeGap, DbCreate, MemorySet])"
    "cached d = Some False" "id' d = uuid race_env"
    by blast
  then have "\<exists>d s'. analyze demo_sha256 demo_coercion empty_state race_env (JStr demo_resume) (JStr demo_jobDesc) =
             (Success d, s', [Sha256, Sha256, MemoryGet, DbFindUnique, AnalyzeGap, DbCreate, MemorySet])
           \<and> cached d = Some False \<and> id' d = ''5b2c''
           \<and> table s' (resumeHash demo_sha256 demo_resume, jobDescHash demo_sha256 demo_jobDesc) = Some other_row"
    using u by auto
  with demo_valid miss f empty_state_fresh(2) c w k r show ?thesis
    by blast
qed

text \<open>
  Claim C2 as stated fails: after a request whose insert failed on the uniqueness
  constraint, the memory cache and the table hold different contents for the same key.
\<close>

theorem constraint_violation_counterexample:
  "create (db_create race_env) (concurrent_insert (other_writer race_env) (table empty_state))
     ''11ee391211c6256460b6ed375957fadd8061cafbb31daf967db875aebd5aaad4''
     ''bbeb514bf12fdef276e7fde1f3cadc8fd1ec8ec070d893bd98f5d1b383de66cf'' demo_result
     = Inl ''Unique constraint failed on the fields: (resumeHash,jobDescHash)''
   \<and> \<not> one_content_across_tiers
         (fst (snd (analyze demo_sha256 demo_coercion empty_state race_env
                      (JStr demo_resume) (JStr demo_jobDesc))))
         ''11ee391211c6256460b6ed375957fadd8061cafbb31daf967db875aebd5aaad4''
         ''bbeb514bf12fdef276e7fde1f3cadc8fd1ec8ec070d893bd98f5d1b383de66cf''"
proof -
  let ?rh = "''11ee391211c6256460b6ed375957fadd8061cafbb31daf967db875aebd5aaad4''"
  let ?jh = "''bbeb514bf12fdef276e7fde1f3cadc8fd1ec8ec070d893bd98f5d1b383de66cf''"
  have t1: "concurrent_insert (other_writer race_env) (table empty_state) = [(?rh, ?jh) \<mapsto> other_row]"
    by (simp add: concurrent_insert_def race_env_def empty_state_def other_row_def)
  have v: "create (db_create race_env) (concurrent_insert (other_writer race_env) (table empty_state))
             ?rh ?jh demo_result
           = Inl ''Unique constraint failed on the fields: (resumeHash,jobDescHash)''"
    unfolding t1 by (simp add: create_def race_env_def demo_env_def)
  have miss: "memory_hit (memoryCache empty_state) (cacheKey ?rh ?jh) (now_probe race_env) = None"
    by (simp add: memory_hit_def empty_state_fresh)
  have l: "lookup empty_state race_env ?rh ?jh =
     (case compute_and_store empty_state race_env (db_find race_env = FindRuns) ?rh ?jh of
        (x, s', tr) \<Rightarrow> (x, s', [MemoryGet, DbFindUnique] @ tr))"
    using lookup_miss [OF miss] by (simp add: empty_state_fresh)
  have f: "db_find race_env = FindRuns"
    by (simp add: race_env_def demo_env_def)
  have c: "analyzeGap (ai race_env) = Inr demo_result"
    by (simp add: race_env_def demo_env_def demo_schema)
  let ?d = "\<lparr> missingSkills = missingSkills demo_result, learningSteps = learningSteps demo_result,
              interviewQuestions = interviewQuestions demo_result, id' = uuid race_env,
              createdAt = now_iso race_env, resumeHash_of = ?rh, jobDescHash_of = ?jh,
              cached = Some False \<rparr>"
  have cs: "compute_and_store empty_state race_env True ?rh ?jh =
      (Inr (Success ?d),
       memory_set (empty_state\<lparr>table := [(?rh, ?jh) \<mapsto> other_row]\<rparr>) (cacheKey ?rh ?jh) ?d (now_store race_env),
       [AnalyzeGap, DbCreate, MemorySet])"
    using v by (simp add: compute_and_store_def c Let_def t1)
  have s': "fst (snd (analyze demo_sha256 demo_coercion empty_state race_env (JStr demo_resume) (JStr demo_jobDesc)))
      = memory_set (empty_state\<lparr>table := [(?rh, ?jh) \<mapsto> other_row]\<rparr>) (cacheKey ?rh ?jh) ?d (now_store race_env)"
    by (simp add: analyze_valid [OF demo_valid] demo_hashes l f cs)
  have "\<not> one_content_across_tiers
         (memory_set (empty_state\<lparr>table := [(?rh, ?jh) \<mapsto> other_row]\<rparr>) (cacheKey ?rh ?jh) ?d (now_store race_env))
         ?rh ?jh"
    by (simp add: one_content_across_tiers_def memory_set_def content_def other_row_def demo_result_def)
  with v s' show ?thesis by simp
qed

lemma degraded_run:
  assumes valid: "50 \<le> length r" "50 \<le> length j"
    and miss: "memory_hit (memoryCache s) (deriveKey H r j) (now_probe e) = None"
    and down: "db_find e = FindThrows m"
    and computes: "analyzeGap (ai e) = Inr v"
  shows "\<exists>d. analyze H L s e (JStr r) (JStr j) =
           (Success d,
            memory_set (s\<lparr>table := concurrent_insert (other_writer e) (table s)\<rparr>)
              (deriveKey H r j) d (now_store e),
            [Sha256, Sha256, MemoryGet, DbFindUnique, AnalyzeGap, MemorySet])
         \<and> cached d = Some False"
proof -
  have miss': "memory_hit (memoryCache s) (cacheKey (resumeHash H r) (jobDescHash H j)) (now_probe e) = None"
    using miss by (simp add: deriveKey_def)
  have l: "lookup s e (resumeHash H r) (jobDescHash H j) =
     (case compute_and_store s e False (resumeHash H r) (jobDescHash H j) of
        (x, s', tr) \<Rightarrow> (x, s', [MemoryGet, DbFindUnique] @ tr))"
    using lookup_miss [OF miss'] down by simp
  show ?thesis
    by (simp add: analyze_valid [OF valid] l compute_ok_degraded [OF computes] Let_def deriveKey_def)
qed

lemma memory_served:
  assumes valid: "50 \<le> length r" "50 \<le> length j"
    and entry: "memoryCache s (deriveKey H r j) = Some \<lparr>data = d, timestamp = t\<rparr>"
    and young: "now_probe e - t < CACHE_TTL"
  shows "analyze H L s e (JStr r) (JStr j) = (Success (d\<lparr>cached := Some True\<rparr>), s, [Sha256, Sha256, MemoryGet])"
proof -
  have hit: "memory_hit (memoryCache s) (cacheKey (resumeHash H r) (jobDescHash H j)) (now_probe e) = Some d"
    using entry young by (simp add: memory_hit_def deriveKey_def)
  show ?thesis
    by (simp add: analyze_valid [OF valid] lookup_memory_hit [OF hit])
qed

lemma miss_reaches_compute:
  assumes valid: "50 \<le> length r" "50 \<le> length j"
    and miss: "memory_hit (memoryCache s) (deriveKey H r j) (now_probe e) = None"
    and none: "table s (resumeHash H r, jobDescHash H j) = None \<or> (\<exists>m. db_find e = FindThrows m)"
  shows "\<exists>x s' tr. analyze H L s e (JStr r) (JStr j) = (x, s', tr) \<and> AnalyzeGap \<in> set tr \<and>
           (\<forall>v. analyzeGap (ai e) = Inr v \<longrightarrow> (\<exists>d. x = Success d \<and> cached d = Some False))"
proof -
  let ?rh = "resumeHash H r" and ?jh = "jobDescHash H j"
  have miss': "memory_hit (memoryCache s) (cacheKey ?rh ?jh) (now_probe e) = None"
    using miss by (simp add: deriveKey_def)
  have l: "lookup s e ?rh ?jh =
     (case compute_and_store s e (db_find e = FindRuns) ?rh ?jh of
        (x, s', tr) \<Rightarrow> (x, s', [MemoryGet, DbFindUnique] @ tr))"
    by (rule lookup_miss [OF miss' none])
  show ?thesis
  proof (cases "analyzeGap (ai e)")
    case (Inl msg)
    show ?thesis
      by (simp add: analyze_valid [OF valid] l compute_fail [OF Inl] Inl)
  next
    case (Inr v)
    from compute_ok [OF Inr, of s "db_find e = FindRuns" ?rh ?jh] obtain d s' tr where
      c: "compute_and_store s e (db_find e = FindRuns) ?rh ?jh = (Inr (Success d), s', tr)"
        "cached d = Some False" "AnalyzeGap \<in> set tr"
      by blast
    show ?thesis
      by (simp add: analyze_valid [OF valid] l c Inr)
  qed
qed

subsection \<open>Requests while the store is unreachable\<close>

text \<open>
  Claim C3, as amended. If the lookup cannot reach the store and \<^verbatim>\<open>analyzeGap\<close>
  succeeds, the request succeeds with \<^verbatim>\<open>cached: false\<close>. A later request with the same
  texts is served from the memory cache (\<^verbatim>\<open>cached: true\<close>, same object, no call of
  \<^verbatim>\<open>analyzeGap\<close>) while its probe comes less than \<open>CACHE_TTL\<close> after the write of the
  first one; once that time has passed and the table has no row for the key, it calls
  \<^verbatim>\<open>analyzeGap\<close> again and succeeds with \<^verbatim>\<open>cached: false\<close> if that call succeeds.
\<close>

theorem degraded_mode_then_memory:
  assumes valid: "50 \<le> length r" "50 \<le> length j"
    and miss: "memory_hit (memoryCache s) (deriveKey H r j) (now_probe e1) = None"
    and down: "db_find e1 = FindThrows m"
    and computes: "analyzeGap (ai e1) = Inr v"
    and first: "analyze H L s e1 (JStr r) (JStr j) = (resp1, s1, tr1)"
    and second: "analyze H L s1 e2 (JStr r) (JStr j) = (resp2, s2, tr2)"
  shows "\<exists>d. resp1 = Success d \<and> cached d = Some False
          \<and> (now_probe e2 - now_store e1 < CACHE_TTL \<longrightarrow>
               resp2 = Success (d\<lparr>cached := Some True\<rparr>) \<and> tr2 = [Sha256, Sha256, MemoryGet])
          \<and> (CACHE_TTL \<le> now_probe e2 - now_store e1 \<longrightarrow>
               table s1 (resumeHash H r, jobDescHash H j) = None \<longrightarrow>
               AnalyzeGap \<in> set tr2 \<and>
               (\<forall>v2. analyzeGap (ai e2) = Inr v2 \<longrightarrow> (\<exists>d2. resp2 = Success d2 \<and> cached d2 = Some False)))"
proof -
  from degraded_run [OF valid miss down computes, of L] first obtain d where
    r1: "resp1 = Success d" and c: "cached d = Some False"
    and s1: "s1 = memory_set (s\<lparr>table := concurrent_insert (other_writer e1) (table s)\<rparr>)
              (deriveKey H r j) d (now_store e1)"
    by auto
  have m1: "memoryCache s1 (deriveKey H r j) = Some \<lparr>data = d, timestamp = now_store e1\<rparr>"
    by (simp add: s1 memory_set_def)
  have soon: "resp2 = Success (d\<lparr>cached := Some True\<rparr>) \<and> tr2 = [Sha256, Sha256, MemoryGet]"
    if "now_probe e2 - now_store e1 < CACHE_TTL"
    using second memory_served [OF valid m1 that, of L] by simp
  have late: "AnalyzeGap \<in> set tr2 \<and>
               (\<forall>v2. analyzeGap (ai e2) = Inr v2 \<longrightarrow> (\<exists>d2. resp2 = Success d2 \<and> cached d2 = Some False))"
    if old: "CACHE_TTL \<le> now_probe e2 - now_store e1"
      and none: "table s1 (resumeHash H r, jobDescHash H j) = None"
  proof -
    have miss2: "memory_hit (memoryCache s1) (deriveKey H r j) (now_probe e2) = None"
      using old by (simp add: m1 memory_hit_def)
    from miss_reaches_compute [OF valid miss2, of L] none second show ?thesis
      by simp
  qed
  show ?thesis
  proof (intro exI [of _ d] conjI impI)
    show "resp1 = Success d" by (rule r1)
    show "cached d = Some False" by (rule c)
    show "resp2 = Success (d\<lparr>cached := Some True\<rparr>)" if "now_probe e2 - now_store e1 < CACHE_TTL"
      using soon [OF that] by simp
    show "tr2 = [Sha256, Sha256, MemoryGet]" if "now_probe e2 - now_store e1 < CACHE_TTL"
      using soon [OF that] by simp
    show "AnalyzeGap \<in> set tr2"
      if "CACHE_TTL \<le> now_probe e2 - now_store e1" "table s1 (resumeHash H r, jobDescHash H j) = None"
      using late [OF that] by simp
    show "\<forall>v2. analyzeGap (ai e2) = Inr v2 \<longrightarrow> (\<exists>d2. resp2 = Success d2 \<and> cached d2 = Some False)"
      if "CACHE_TTL \<le> now_probe e2 - now_store e1" "table s1 (resumeHash H r, jobDescHash H j) = None"
      using late [OF that] by simp
  qed
qed

lemma down_env_facts:
  "db_find down_env = FindThrows ''database server unreachable''"
  "analyzeGap (ai down_env) = Inr demo_result"
  "now_store down_env = 1002" "now_probe down_env = 1000" "other_writer down_env = None"
  by (simp_all add: down_env_def demo_env_def demo_schema)

lemma down_miss:
  "memory_hit (memoryCache empty_state) (deriveKey demo_sha256 demo_resume demo_jobDesc) (now_probe e) = None"
  by (simp add: memory_hit_def empty_state_fresh)

text \<open>
  Claim C3 as stated fails: after a request served while the store was unreachable, a
  request with the same texts and a reachable store does not call \<^verbatim>\<open>analyzeGap\<close>.
\<close>

theorem degraded_then_recovered_counterexample:
  "(\<exists>d. fst (analyze demo_sha256 demo_coercion empty_state down_env (JStr demo_resume) (JStr demo_jobDesc))
         = Success d)
   \<and> DbCreate \<notin> set (snd (snd (analyze demo_sha256 demo_coercion empty_state down_env
                                   (JStr demo_resume) (JStr demo_jobDesc))))
   \<and> db_find (demo_env\<lparr>now_probe := 5000\<rparr>) = FindRuns
   \<and> AnalyzeGap \<notin> set (snd (snd (analyze demo_sha256 demo_coercion state_after_degraded_call
                                     (demo_env\<lparr>now_probe := 5000\<rparr>) (JStr demo_resume) (JStr demo_jobDesc))))"
proof -
  from degraded_run [OF demo_valid down_miss down_env_facts(1,2), of demo_coercion]
  obtain d where first:
    "analyze demo_sha256 demo_coercion empty_state down_env (JStr demo_resume) (JStr demo_jobDesc) =
       (Success d,
        memory_set (empty_state\<lparr>table := concurrent_insert (other_writer down_env) (table empty_state)\<rparr>)
          (deriveKey demo_sha256 demo_resume demo_jobDesc) d (now_store down_env),
        [Sha256, Sha256, MemoryGet, DbFindUnique, AnalyzeGap, MemorySet])"
    by blast
  have entry: "memoryCache state_after_degraded_call (deriveKey demo_sha256 demo_resume demo_jobDesc)
      = Some \<lparr>data = d, timestamp = 1002\<rparr>"
    by (simp add: state_after_degraded_call_def first memory_set_def down_env_facts)
  have young: "now_probe (demo_env\<lparr>now_probe := 5000\<rparr>) - 1002 < CACHE_TTL"
    by (simp add: CACHE_TTL_def)
  have recovered: "db_find (demo_env\<lparr>now_probe := 5000\<rparr>) = FindRuns"
    by (simp add: demo_env_def)
  show ?thesis
    by (simp add: first recovered memory_served [OF demo_valid entry young])
qed

theorem degraded_mode_then_memory_witness:
  "50 \<le> length demo_resume \<and> 50 \<le> length demo_jobDesc \<and>
   memory_hit (memoryCache empty_state) (deriveKey demo_sha256 demo_resume demo_jobDesc) (now_probe down_env) = None \<and>
   db_find down_env = FindThrows ''database server unreachable'' \<and>
   analyzeGap (ai down_env) = Inr demo_result \<and>
   now_probe (demo_env\<lparr>now_probe := 5000\<rparr>) - now_store down_env < CACHE_TTL \<and>
   CACHE_TTL \<le> now_probe (demo_env\<lparr>now_probe := 90000000\<rparr>) - now_store down_env \<and>
   table state_after_degraded_call (resumeHash demo_sha256 demo_resume, jobDescHash demo_sha256 demo_jobDesc) = None \<and>
   analyzeGap (ai (demo_env\<lparr>now_probe := 90000000\<rparr>)) = Inr demo_result \<and>
   (\<exists>d. fst (analyze demo_sha256 demo_coercion empty_state down_env (JStr demo_resume) (JStr demo_jobDesc))
          = Success d \<and> cached d = Some False \<and>
        fst (analyze demo_sha256 demo_coercion state_after_degraded_call (demo_env\<lparr>now_probe := 5000\<rparr>)
               (JStr demo_resume) (JStr demo_jobDesc)) = Success (d\<lparr>cached := Some True\<rparr>)) \<and>
   AnalyzeGap \<in> set (snd (snd (analyze demo_sha256 demo_coercion state_after_degraded_call
                                   (demo_env\<lparr>now_probe := 90000000\<rparr>) (JStr demo_resume) (JStr demo_jobDesc)))) \<and>
   (\<exists>d2. fst (analyze demo_sha256 demo_coercion state_after_degraded_call (demo_env\<lparr>now_probe := 90000000\<rparr>)
                (JStr demo_resume) (JStr demo_jobDesc)) = Success d2 \<and> cached d2 = Some False)"
proof -
  let ?soon = "demo_env\<lparr>now_probe := 5000\<rparr>" and ?late = "demo_env\<lparr>now_probe := 90000000\<rparr>"
  obtain resp1 s1 tr1 where first:
    "analyze demo_sha256 demo_coercion empty_state down_env (JStr demo_resume) (JStr demo_jobDesc) = (resp1, s1, tr1)"
    by (cases "analyze demo_sha256 demo_coercion empty_state down_env (JStr demo_resume) (JStr demo_jobDesc)")
  then have fs: "state_after_degraded_call = s1"
    by (simp add: state_after_degraded_call_def)
  obtain resp2 s2 tr2 where second:
    "analyze demo_sha256 demo_coercion s1 ?soon (JStr demo_resume) (JStr demo_jobDesc) = (resp2, s2, tr2)"
    by (cases "analyze demo_sha256 demo_coercion s1 ?soon (JStr demo_resume) (JStr demo_jobDesc)")
  obtain resp3 s3 tr3 where third:
    "analyze demo_sha256 demo_coercion s1 ?late (JStr demo_resume) (JStr demo_jobDesc) = (resp3, s3, tr3)"
    by (cases "analyze demo_sha256 demo_coercion s1 ?late (JStr demo_resume) (JStr demo_jobDesc)")
  have soon: "now_probe ?soon - now_store down_env < CACHE_TTL"
    by (simp add: down_env_facts CACHE_TTL_def)
  have late: "CACHE_TTL \<le> now_probe ?late - now_store down_env"
    by (simp add: down_env_facts CACHE_TTL_def)
  have computes: "analyzeGap (ai ?late) = Inr demo_result"
    by (simp add: demo_env_def demo_schema)
  from degraded_run [OF demo_valid down_miss down_env_facts(1,2), of demo_coercion] first
  have "table s1 = table empty_state"
    by (auto simp: memory_set_def concurrent_insert_def down_env_facts)
  then have none: "table s1 (resumeHash demo_sha256 demo_resume, jobDescHash demo_sha256 demo_jobDesc) = None"
    by (simp add: empty_state_fresh)
  from degraded_mode_then_memory [OF demo_valid down_miss down_env_facts(1,2) first second] soon
  obtain d where a: "resp1 = Success d" "cached d = Some False" "resp2 = Success (d\<lparr>cached := Some True\<rparr>)"
    by blast
  from degraded_mode_then_memory [OF demo_valid down_miss down_env_facts(1,2) first third] late none computes
  obtain d2 where b: "AnalyzeGap \<in> set tr3" "resp3 = Success d2" "cached d2 = Some False"
    by blast
  show ?thesis
    using demo_valid down_miss [of down_env] down_env_facts(1,2) soon late none computes a b
    by (simp add: fs first second third)
qed

lemma validate_passes:
  assumes "truthy resumeText" "truthy jobDescText"
    and "length_less_than_50 L resumeText = Inr False" "length_less_than_50 L jobDescText = Inr False"
  shows "validate L resumeText jobDescText = Next ()"
  using assms by (simp add: validate_def)

lemma hashing_non_text:
  "\<not> is_text resumeText \<or> \<not> is_text jobDescText \<Longrightarrow>
   \<exists>tr. (hashing H resumeText jobDescText = (Throw ''resumeText.trim is not a function'', tr)
         \<or> hashing H resumeText jobDescText = (Throw ''jobDescText.trim is not a function'', tr))
        \<and> set tr \<subseteq> {Sha256}"
  by (cases resumeText; cases jobDescText) (simp_all add: hashing_def is_text_def)

lemma error_response_trim:
  "error_response ''resumeText.trim is not a function'' =
     Failure 500 ''Something went wrong processing your request.'' ''INTERNAL_ERROR''"
  "error_response ''jobDescText.trim is not a function'' =
     Failure 500 ''Something went wrong processing your request.'' ''INTERNAL_ERROR''"
  by (simp_all add: error_response_def)

subsection \<open>Request values that are not texts\<close>

text \<open>
  Claim C9, as amended. When both fields are truthy, the comparison of each field's
  \<^verbatim>\<open>length\<close> with 50 evaluates to false, that is, it neither is true nor throws (a
  string has at least 50 characters; another value has no \<^verbatim>\<open>length\<close>, or one that
  \<^verbatim>\<open><\<close> compares and finds not below 50), and at least one field is not a string, both
  validation checks pass and the request is answered with status 500 and the code
  \<^verbatim>\<open>INTERNAL_ERROR\<close>, thrown by \<^verbatim>\<open>trim\<close>; no tier is probed and the state is unchanged.
\<close>

theorem non_text_fails_at_trim:
  assumes present: "truthy resumeText" "truthy jobDescText"
    and long: "length_less_than_50 L resumeText = Inr False" "length_less_than_50 L jobDescText = Inr False"
    and non_text: "\<not> is_text resumeText \<or> \<not> is_text jobDescText"
  shows "validate L resumeText jobDescText = Next ()
       \<and> (\<exists>tr. analyze H L s e resumeText jobDescText =
                 (Failure 500 ''Something went wrong processing your request.'' ''INTERNAL_ERROR'', s, tr)
               \<and> set tr \<subseteq> {Sha256})"
proof -
  have v: "validate L resumeText jobDescText = Next ()"
    by (rule validate_passes [OF present long])
  from hashing_non_text [OF non_text, of H] obtain tr where
    h: "hashing H resumeText jobDescText = (Throw ''resumeText.trim is not a function'', tr)
         \<or> hashing H resumeText jobDescText = (Throw ''jobDescText.trim is not a function'', tr)"
    and t: "set tr \<subseteq> {Sha256}"
    by blast
  from h have "analyze H L s e resumeText jobDescText =
                 (Failure 500 ''Something went wrong processing your request.'' ''INTERNAL_ERROR'', s, tr)"
    by (auto simp: analyze_def analyze_try_def v error_response_trim)
  with v t show ?thesis by blast
qed

theorem non_text_fails_at_trim_witness:
  "truthy (JNum 12345) \<and> truthy (JStr demo_jobDesc) \<and>
   length_less_than_50 demo_coercion (JNum 12345) = Inr False \<and>
   length_less_than_50 demo_coercion (JStr demo_jobDesc) = Inr False \<and>
   \<not> is_text (JNum 12345) \<and>
   validate demo_coercion (JNum 12345) (JStr demo_jobDesc) = Next () \<and>
   (\<exists>tr. analyze demo_sha256 demo_coercion empty_state demo_env (JNum 12345) (JStr demo_jobDesc) =
           (Failure 500 ''Something went wrong processing your request.'' ''INTERNAL_ERROR'', empty_state, tr))"
proof -
  have p: "truthy (JNum 12345)" "truthy (JStr demo_jobDesc)"
    by (simp_all add: demo_jobDesc_def)
  have l: "length_less_than_50 demo_coercion (JNum 12345) = Inr False"
    "length_less_than_50 demo_coercion (JStr demo_jobDesc) = Inr False"
    by (simp_all add: length_less_than_50_def demo_lengths)
  have n: "\<not> is_text (JNum 12345)"
    by (simp add: is_text_def)
  then have n': "\<not> is_text (JNum 12345) \<or> \<not> is_text (JStr demo_jobDesc)"
    by simp
  from non_text_fails_at_trim [OF p l n', of demo_sha256 empty_state demo_env] p l n
  show ?thesis by blast
qed

text \<open>
  Claim C9 as stated fails: a number in \<^verbatim>\<open>resumeText\<close> with \<^verbatim>\<open>jobDescText\<close> missing, and an
  object whose \<^verbatim>\<open>length\<close> is \<^verbatim>\<open>null\<close> beside a valid text, are answered with
  \<^verbatim>\<open>VALIDATION_ERROR\<close>.
\<close>

theorem non_text_rejected_counterexample:
  "truthy_non_text_without_short_length (JNum 12345)
   \<and> fst (analyze demo_sha256 demo_coercion empty_state demo_env (JNum 12345) JUndefined)
       = Failure 400 ''Resume and Job Description are required'' ''VALIDATION_ERROR''
   \<and> truthy_non_text_without_short_length (JObj [(''length'', JNull)])
   \<and> fst (analyze demo_sha256 demo_coercion empty_state demo_env
            (JObj [(''length'', JNull)]) (JStr demo_jobDesc))
       = Failure 400
           ''Please provide more detailed Resume and Job Description (min 50 characters each)''
           ''VALIDATION_ERROR''"
proof -
  have a: "truthy_non_text_without_short_length (JNum 12345)"
    "truthy_non_text_without_short_length (JObj [(''length'', JNull)])"
    by (simp_all add: truthy_non_text_without_short_length_def is_text_def numeric_length_below_50_def)
  have b: "validate demo_coercion (JNum 12345) JUndefined =
      Respond (Failure 400 ''Resume and Job Description are required'' ''VALIDATION_ERROR'')"
    by (simp add: validate_def)
  have c: "validate demo_coercion (JObj [(''length'', JNull)]) (JStr demo_jobDesc) =
      Respond (Failure 400
           ''Please provide more detailed Resume and Job Description (min 50 characters each)''
           ''VALIDATION_ERROR'')"
    by (simp add: validate_def length_less_than_50_def demo_jobDesc_def)
  show ?thesis
    using a by (simp add: analyze_rejected [OF b] analyze_rejected [OF c])
qed

end
